theory Spec2Isabelle
  imports Complex_Main
begin

section \<open>Data model (index.ts, lines 6-51)\<close>

text \<open>
  The provider selector is a five-valued string union in the source; template literals
  print it as its own name.
\<close>

datatype AIProvider = OpenAI | Anthropic | Gemini | DeepSeek | Ollama

fun provider_name :: "AIProvider \<Rightarrow> string" where
  "provider_name OpenAI = ''openai''"
| "provider_name Anthropic = ''anthropic''"
| "provider_name Gemini = ''gemini''"
| "provider_name DeepSeek = ''deepseek''"
| "provider_name Ollama = ''ollama''"

text \<open>
  \<open>AIThoughtTask\<close>. Optional fields are options; JavaScript numbers that are only
  carried along (temperature, token budget) are reals.
\<close>

record AIThoughtTask =
  id' :: string
  prompt :: string
  provider :: AIProvider
  model :: "string option"
  temperature :: "real option"
  maxTokens :: "real option"
  metadata :: "(string \<times> string) list option"

record Usage =
  promptTokens :: "nat option"
  completionTokens :: "nat option"
  totalTokens :: "nat option"

record AIThoughtResponse =
  taskId :: string
  rprovider :: AIProvider
  rmodel :: string
  response :: string
  usage :: "Usage option"
  rtimestamp :: nat
  duration :: int

record ParallelThoughtResult =
  sessionId :: string
  tasks :: "AIThoughtTask list"
  responses :: "AIThoughtResponse list"
  summary :: "string option"
  consensus :: "string option"
  totalDuration :: int
  timestamp :: nat

record AIProviderConfig =
  apiKey :: string
  baseURL :: "string option"
  defaultModel :: "string option"

section \<open>Template literals: printing a number\<close>

text \<open>
  \<open>`${i}`\<close> for a non-negative integer is its decimal notation without leading zeros.
\<close>

definition digit_char :: "nat \<Rightarrow> char" where
  "digit_char d = ''0123456789'' ! d"

fun string_of_nat :: "nat \<Rightarrow> string" where
  "string_of_nat n =
     (if n < 10 then [digit_char n]
      else string_of_nat (n div 10) @ [digit_char (n mod 10)])"

declare string_of_nat.simps [simp del]

text \<open>The line feed of a template literal.\<close>

definition LF :: char where
  "LF = CHR 0x0A"

section \<open>Task expansion (executeParallelThoughts, lines 339-357)\<close>

text \<open>
  The options object of \<open>executeParallelThoughts\<close>. \<open>customModels\<close> is a partial
  record indexed by provider.
\<close>

record ThoughtOptions =
  variants :: "string list option"
  otemperature :: "real option"
  omaxTokens :: "real option"
  customModels :: "(AIProvider \<rightharpoonup> string) option"

text \<open>
  \<open>options?.variants || ['']\<close>: only an absent list falls back to the single empty
  variant; an array, even an empty one, is truthy and is kept.
\<close>

definition variantsOf :: "ThoughtOptions option \<Rightarrow> string list" where
  "variantsOf options =
     (case options of
        None \<Rightarrow> [[]]
      | Some opts \<Rightarrow> (case variants opts of None \<Rightarrow> [[]] | Some vs \<Rightarrow> vs))"

text \<open>
  \<open>variant ? `${basePrompt}\n\n${variant}` : basePrompt\<close>: the empty string is the
  only falsy string.
\<close>

definition effectivePrompt :: "string \<Rightarrow> string \<Rightarrow> string" where
  "effectivePrompt basePrompt variant =
     (if variant \<noteq> [] then basePrompt @ [LF, LF] @ variant else basePrompt)"

definition taskIdOf :: "AIProvider \<Rightarrow> nat \<Rightarrow> string" where
  "taskIdOf p i = provider_name p @ ''-'' @ string_of_nat i"

definition customModelOf :: "ThoughtOptions option \<Rightarrow> AIProvider \<Rightarrow> string option" where
  "customModelOf options p =
     (case options of
        None \<Rightarrow> None
      | Some opts \<Rightarrow> (case customModels opts of None \<Rightarrow> None | Some cm \<Rightarrow> cm p))"

definition temperatureOf :: "ThoughtOptions option \<Rightarrow> real option" where
  "temperatureOf options = (case options of None \<Rightarrow> None | Some opts \<Rightarrow> otemperature opts)"

definition maxTokensOf :: "ThoughtOptions option \<Rightarrow> real option" where
  "maxTokensOf options = (case options of None \<Rightarrow> None | Some opts \<Rightarrow> omaxTokens opts)"

text \<open>The object pushed by the body of the inner loop, for provider \<open>p\<close> and index \<open>i\<close>.\<close>

definition mkTask ::
  "string \<Rightarrow> ThoughtOptions option \<Rightarrow> AIProvider \<Rightarrow> nat \<Rightarrow> string \<Rightarrow> AIThoughtTask" where
  "mkTask basePrompt options p i variant =
     \<lparr> id' = taskIdOf p i,
       prompt = effectivePrompt basePrompt variant,
       provider = p,
       model = customModelOf options p,
       temperature = temperatureOf options,
       maxTokens = maxTokensOf options,
       metadata = None \<rparr>"

text \<open>
  The nested loops: for each provider in order, for each index \<open>i\<close> below
  \<open>variants.length\<close>, one task is appended.
\<close>

definition tasksFor ::
  "string \<Rightarrow> ThoughtOptions option \<Rightarrow> string list \<Rightarrow> AIProvider \<Rightarrow> AIThoughtTask list" where
  "tasksFor basePrompt options vs p =
     map (\<lambda>i. mkTask basePrompt options p i (vs ! i)) [0..<length vs]"

definition buildTasks ::
  "string \<Rightarrow> AIProvider list \<Rightarrow> ThoughtOptions option \<Rightarrow> AIThoughtTask list" where
  "buildTasks basePrompt providers options =
     concat (map (tasksFor basePrompt options (variantsOf options)) providers)"


section \<open>Provider registry (AIInterface.initializeProviders, lines 60-101)\<close>

text \<open>
  A string of the environment counts only when it is set and not empty (truthiness), and
  \<open>a || b\<close> on strings takes \<open>b\<close> when \<open>a\<close> is absent or empty.
\<close>

definition truthyStr :: "string option \<Rightarrow> string option" where
  "truthyStr s = (case s of None \<Rightarrow> None | Some v \<Rightarrow> if v = [] then None else Some v)"

definition orElse :: "string option \<Rightarrow> string \<Rightarrow> string" where
  "orElse s d = (case truthyStr s of None \<Rightarrow> d | Some v \<Rightarrow> v)"

text \<open>
  The registry is a JavaScript \<open>Map\<close>: an association list in insertion order, each key
  set at most once, in the fixed order of the five \<open>if\<close> statements.
\<close>

definition initializeProviders :: "(string \<rightharpoonup> string) \<Rightarrow> (AIProvider \<times> AIProviderConfig) list" where
  "initializeProviders env =
     (case truthyStr (env ''OPENAI_API_KEY'') of
        None \<Rightarrow> []
      | Some k \<Rightarrow> [(OpenAI, \<lparr> apiKey = k,
                          baseURL = Some (orElse (env ''OPENAI_BASE_URL'') ''https://api.openai.com/v1''),
                          defaultModel = Some ''gpt-4'' \<rparr>)]) @
     (case truthyStr (env ''ANTHROPIC_API_KEY'') of
        None \<Rightarrow> []
      | Some k \<Rightarrow> [(Anthropic, \<lparr> apiKey = k,
                          baseURL = Some (orElse (env ''ANTHROPIC_BASE_URL'') ''https://api.anthropic.com''),
                          defaultModel = Some ''claude-3-5-sonnet-20241022'' \<rparr>)]) @
     (case truthyStr (env ''GEMINI_API_KEY'') of
        None \<Rightarrow> []
      | Some k \<Rightarrow> [(Gemini, \<lparr> apiKey = k,
                          baseURL = Some (orElse (env ''GEMINI_BASE_URL'')
                                            ''https://generativelanguage.googleapis.com''),
                          defaultModel = Some ''gemini-pro'' \<rparr>)]) @
     (case truthyStr (env ''DEEPSEEK_API_KEY'') of
        None \<Rightarrow> []
      | Some k \<Rightarrow> [(DeepSeek, \<lparr> apiKey = k,
                          baseURL = Some (orElse (env ''DEEPSEEK_BASE_URL'') ''https://api.deepseek.com''),
                          defaultModel = Some ''deepseek-chat'' \<rparr>)]) @
     (case truthyStr (env ''OLLAMA_BASE_URL'') of
        None \<Rightarrow> []
      | Some u \<Rightarrow> [(Ollama, \<lparr> apiKey = ''not-needed'',
                          baseURL = Some (orElse (env ''OLLAMA_BASE_URL'') ''http://localhost:11434''),
                          defaultModel = Some ''llama3.2'' \<rparr>)])"

section \<open>Provider adapters (callAI and the five call* methods, lines 139-308)\<close>

text \<open>
  What a \<open>throw\<close> or a rejected promise carries: an \<open>Error\<close> object with its message,
  or any other value (the \<open>instanceof Error\<close> test of the catch blocks tells them apart).
\<close>

datatype JsThrown = ErrorObj string | NonError

definition errorMessageOf :: "JsThrown \<Rightarrow> string" where
  "errorMessageOf e = (case e of ErrorObj m \<Rightarrow> m | NonError \<Rightarrow> ''Unknown error'')"

text \<open>
  A response body as \<open>response.json()\<close> delivers it: a JSON value. \<open>JObj\<close> lists the
  properties of the parsed object, each key once. Numbers occur in these bodies only
  as token counts and are naturals. A JavaScript value that may also be \<open>undefined\<close>
  is a \<open>Json option\<close>, with \<open>None\<close> for \<open>undefined\<close>.
\<close>

datatype Json =
    JNull
  | JBool bool
  | JNum nat
  | JStr string
  | JArr "Json list"
  | JObj "(string \<times> Json) list"

text \<open>Truthiness, as the tests \<open>x ? a : b\<close> and \<open>x || y\<close> see it.\<close>

fun truthy :: "Json \<Rightarrow> bool" where
  "truthy JNull = False"
| "truthy (JBool b) = b"
| "truthy (JNum n) = (n \<noteq> 0)"
| "truthy (JStr s) = (s \<noteq> [])"
| "truthy (JArr xs) = True"
| "truthy (JObj kvs) = True"

text \<open>
  Reading a named property of a value that is neither \<open>null\<close> nor \<open>undefined\<close>: only
  an object has the names the adapters ask for; arrays, strings, numbers and booleans
  answer \<open>undefined\<close>.
\<close>

fun ownProp :: "Json \<Rightarrow> string \<Rightarrow> Json option" where
  "ownProp (JObj kvs) k = map_of kvs k"
| "ownProp j k = None"

text \<open>
  Reading index 0: the first element of an array, the property \<open>0\<close> of an object, the
  first character of a string (nothing is read from it afterwards), \<open>undefined\<close>
  otherwise and when there is no such element.
\<close>

fun elem0 :: "Json \<Rightarrow> Json option" where
  "elem0 (JArr xs) = (case xs of [] \<Rightarrow> None | x # rest \<Rightarrow> Some x)"
| "elem0 (JObj kvs) = map_of kvs ''0''"
| "elem0 (JStr s) = (if s = [] then None else Some (JStr (take 1 s)))"
| "elem0 j = None"

text \<open>
  Reading a property of \<open>null\<close> or \<open>undefined\<close> throws a \<open>TypeError\<close>. Its message is
  the engine's; the wording is that of V8, the engine of Node.js, whose global
  \<open>fetch\<close> the adapters call.
\<close>

definition typeErrorMessage :: "string \<Rightarrow> string \<Rightarrow> string" where
  "typeErrorMessage base key =
     ''Cannot read properties of '' @ base @ '' (reading '' @ [CHR 0x27] @ key @ [CHR 0x27] @ '')''"

definition nullish :: "Json option \<Rightarrow> bool" where
  "nullish v = (v = None \<or> v = Some JNull)"

text \<open>\<open>v.key\<close> and \<open>v[0]\<close>.\<close>

definition dot :: "Json option \<Rightarrow> string \<Rightarrow> JsThrown + Json option" where
  "dot v key =
     (case v of
        None \<Rightarrow> Inl (ErrorObj (typeErrorMessage ''undefined'' key))
      | Some JNull \<Rightarrow> Inl (ErrorObj (typeErrorMessage ''null'' key))
      | Some j \<Rightarrow> Inr (ownProp j key))"

definition at0 :: "Json option \<Rightarrow> JsThrown + Json option" where
  "at0 v =
     (case v of
        None \<Rightarrow> Inl (ErrorObj (typeErrorMessage ''undefined'' ''0''))
      | Some JNull \<Rightarrow> Inl (ErrorObj (typeErrorMessage ''null'' ''0''))
      | Some j \<Rightarrow> Inr (elem0 j))"

text \<open>\<open>v?.key\<close> and \<open>v?.[0]\<close>: \<open>undefined\<close> when \<open>v\<close> is \<open>null\<close> or \<open>undefined\<close>.\<close>

definition optDot :: "Json option \<Rightarrow> string \<Rightarrow> Json option" where
  "optDot v key = (case v of None \<Rightarrow> None | Some JNull \<Rightarrow> None | Some j \<Rightarrow> ownProp j key)"

definition optAt0 :: "Json option \<Rightarrow> Json option" where
  "optAt0 v = (case v of None \<Rightarrow> None | Some JNull \<Rightarrow> None | Some j \<Rightarrow> elem0 j)"

text \<open>
  The leaves are read at the types the adapters declare for their result: \<open>x || ''\<close>
  gives the string found, and the empty string when the value is missing or falsy; a
  token count is a number or absent. A value of another type at a leaf is outside
  those declarations and is read as missing.
\<close>

definition textOr :: "Json option \<Rightarrow> string" where
  "textOr v = (case v of Some (JStr s) \<Rightarrow> s | _ \<Rightarrow> [])"

definition countOf :: "Json option \<Rightarrow> nat option" where
  "countOf v = (case v of Some (JNum n) \<Rightarrow> Some n | _ \<Rightarrow> None)"

text \<open>\<open>u ? { promptTokens: u.k1, completionTokens: u.k2, totalTokens: u.k3 } : undefined\<close>.\<close>

definition usageBlock :: "Json option \<Rightarrow> string \<Rightarrow> string \<Rightarrow> string \<Rightarrow> Usage option" where
  "usageBlock u k1 k2 k3 =
     (case u of
        None \<Rightarrow> None
      | Some j \<Rightarrow>
          if truthy j then
            Some \<lparr> promptTokens = countOf (ownProp j k1),
                   completionTokens = countOf (ownProp j k2),
                   totalTokens = countOf (ownProp j k3) \<rparr>
          else None)"

text \<open>
  The outcome of one \<open>fetch\<close>. The network is the environment, so the outcome is data
  given to the model:
  \<^item> \<open>NetworkFault e\<close>: the \<open>fetch\<close> promise rejects with \<open>e\<close>;
  \<^item> \<open>HttpReply ok status statusText body\<close>: a response arrived; its body is
    \<open>Unparseable e\<close> when \<open>response.json()\<close> rejects with \<open>e\<close> (the text is not JSON),
    and \<open>JsonBody data\<close> when it yields the value \<open>data\<close>.
  Every call is taken to settle; a call that never answers is outside this model.
\<close>

datatype Body = Unparseable JsThrown | JsonBody Json

datatype FetchOutcome = NetworkFault JsThrown | HttpReply bool nat string Body

text \<open>
  What each adapter reads from the parsed body, in the order of its object literal:
  first \<open>content\<close>, then \<open>usage\<close>.

  \<open>callOpenAI\<close> and \<open>callDeepSeek\<close> read the same paths:
  \<open>data.choices[0]?.message?.content || ''\<close> and \<open>data.usage\<close> with
  \<open>prompt_tokens\<close>, \<open>completion_tokens\<close>, \<open>total_tokens\<close>.
\<close>

definition readChat :: "Json \<Rightarrow> JsThrown + (string \<times> Usage option)" where
  "readChat data =
     (case dot (Some data) ''choices'' of
        Inl e \<Rightarrow> Inl e
      | Inr choices \<Rightarrow>
          (case at0 choices of
             Inl e \<Rightarrow> Inl e
           | Inr choice \<Rightarrow>
               (case dot (Some data) ''usage'' of
                  Inl e \<Rightarrow> Inl e
                | Inr u \<Rightarrow>
                    Inr (textOr (optDot (optDot choice ''message'') ''content''),
                         usageBlock u ''prompt_tokens'' ''completion_tokens'' ''total_tokens''))))"

text \<open>
  \<open>callAnthropic\<close>: \<open>data.content[0]?.text || ''\<close>; the usage block has input and output
  tokens, and the total is \<open>(input_tokens || 0) + (output_tokens || 0)\<close>.
\<close>

definition countOr0 :: "nat option \<Rightarrow> nat" where
  "countOr0 c = (case c of None \<Rightarrow> 0 | Some n \<Rightarrow> n)"

definition anthropicUsage :: "Json option \<Rightarrow> Usage option" where
  "anthropicUsage u =
     (case u of
        None \<Rightarrow> None
      | Some j \<Rightarrow>
          if truthy j then
            Some \<lparr> promptTokens = countOf (ownProp j ''input_tokens''),
                   completionTokens = countOf (ownProp j ''output_tokens''),
                   totalTokens = Some (countOr0 (countOf (ownProp j ''input_tokens'')) +
                                       countOr0 (countOf (ownProp j ''output_tokens''))) \<rparr>
          else None)"

definition readAnthropic :: "Json \<Rightarrow> JsThrown + (string \<times> Usage option)" where
  "readAnthropic data =
     (case dot (Some data) ''content'' of
        Inl e \<Rightarrow> Inl e
      | Inr content \<Rightarrow>
          (case at0 content of
             Inl e \<Rightarrow> Inl e
           | Inr block \<Rightarrow>
               (case dot (Some data) ''usage'' of
                  Inl e \<Rightarrow> Inl e
                | Inr u \<Rightarrow> Inr (textOr (optDot block ''text''), anthropicUsage u))))"

text \<open>
  \<open>callGemini\<close>: \<open>data.candidates?.[0]?.content?.parts?.[0]?.text || ''\<close> and
  \<open>data.usageMetadata\<close> with \<open>promptTokenCount\<close>, \<open>candidatesTokenCount\<close>,
  \<open>totalTokenCount\<close>.
\<close>

definition readGemini :: "Json \<Rightarrow> JsThrown + (string \<times> Usage option)" where
  "readGemini data =
     (case dot (Some data) ''candidates'' of
        Inl e \<Rightarrow> Inl e
      | Inr candidates \<Rightarrow>
          (case dot (Some data) ''usageMetadata'' of
             Inl e \<Rightarrow> Inl e
           | Inr u \<Rightarrow>
               Inr (textOr (optDot (optAt0 (optDot (optDot (optAt0 candidates) ''content'') ''parts''))
                              ''text''),
                    usageBlock u ''promptTokenCount'' ''candidatesTokenCount'' ''totalTokenCount'')))"

text \<open>\<open>callOllama\<close>: \<open>data.response || ''\<close>, and never a usage block.\<close>

definition readOllama :: "Json \<Rightarrow> JsThrown + (string \<times> Usage option)" where
  "readOllama data =
     (case dot (Some data) ''response'' of
        Inl e \<Rightarrow> Inl e
      | Inr text \<Rightarrow> Inr (textOr text, None))"

text \<open>
  The five adapters share one shape: reject on a network fault, throw
  \<open>`<label> API error: ${status} ${statusText}`\<close> when \<open>response.ok\<close> is false,
  otherwise parse the body and read it.
\<close>

definition httpCall ::
  "string \<Rightarrow> (Json \<Rightarrow> JsThrown + (string \<times> Usage option)) \<Rightarrow> FetchOutcome
     \<Rightarrow> JsThrown + (string \<times> Usage option)" where
  "httpCall label readBody outcome =
     (case outcome of
        NetworkFault e \<Rightarrow> Inl e
      | HttpReply ok status statusText body \<Rightarrow>
          if \<not> ok then
            Inl (ErrorObj (label @ '' API error: '' @ string_of_nat status @ '' '' @ statusText))
          else (case body of
                  Unparseable e \<Rightarrow> Inl e
                | JsonBody data \<Rightarrow> readBody data))"

definition callOpenAI :: "FetchOutcome \<Rightarrow> JsThrown + (string \<times> Usage option)" where
  "callOpenAI = httpCall ''OpenAI'' readChat"

definition callAnthropic :: "FetchOutcome \<Rightarrow> JsThrown + (string \<times> Usage option)" where
  "callAnthropic = httpCall ''Anthropic'' readAnthropic"

definition callGemini :: "FetchOutcome \<Rightarrow> JsThrown + (string \<times> Usage option)" where
  "callGemini = httpCall ''Gemini'' readGemini"

definition callDeepSeek :: "FetchOutcome \<Rightarrow> JsThrown + (string \<times> Usage option)" where
  "callDeepSeek = httpCall ''DeepSeek'' readChat"

definition callOllama :: "FetchOutcome \<Rightarrow> JsThrown + (string \<times> Usage option)" where
  "callOllama = httpCall ''Ollama'' readOllama"

text \<open>
  \<open>callAI\<close> switches on the provider; its \<open>default\<close> branch is unreachable for the
  five-valued type.
\<close>

definition callAI :: "AIThoughtTask \<Rightarrow> FetchOutcome \<Rightarrow> JsThrown + (string \<times> Usage option)" where
  "callAI task outcome =
     (case provider task of
        OpenAI \<Rightarrow> callOpenAI outcome
      | Anthropic \<Rightarrow> callAnthropic outcome
      | Gemini \<Rightarrow> callGemini outcome
      | DeepSeek \<Rightarrow> callDeepSeek outcome
      | Ollama \<Rightarrow> callOllama outcome)"

section \<open>State of the manager and of its environment\<close>

text \<open>
  \<open>configs\<close> and \<open>sessions\<close> are the two maps of the source (\<open>AIInterface.configs\<close>,
  \<open>ParallelThoughtManager.sessions\<close>). The rest is the environment, made explicit:
  \<^item> \<open>clock\<close> is what \<open>Date.now()\<close> returns, in milliseconds;
  \<^item> \<open>net n task config\<close> is what the \<open>n\<close>-th outbound call of the process meets when it
    carries the request built from \<open>task\<close> and \<open>config\<close>: the outcome of the fetch and
    the time it takes to settle;
  \<^item> \<open>dispatched\<close> logs the tasks whose request has gone out, in order.
  Computation itself takes no time: the clock moves only while a call is awaited.
  Operations of the manager run one after the other, so a stored session can be held by
  value.
\<close>

record ManagerState =
  configs :: "(AIProvider \<times> AIProviderConfig) list"
  sessions :: "string \<rightharpoonup> ParallelThoughtResult"
  clock :: nat
  net :: "nat \<Rightarrow> AIThoughtTask \<Rightarrow> AIProviderConfig \<Rightarrow> FetchOutcome \<times> nat"
  dispatched :: "AIThoughtTask list"

definition getAvailableProviders :: "ManagerState \<Rightarrow> AIProvider list" where
  "getAvailableProviders st = map fst (configs st)"

section \<open>Task executor (AIInterface.executeTask, lines 103-137)\<close>

text \<open>\<open>task.model || config.defaultModel || 'unknown'\<close>.\<close>

definition resolvedModel :: "AIThoughtTask \<Rightarrow> AIProviderConfig \<Rightarrow> string" where
  "resolvedModel task config =
     (case truthyStr (model task) of
        Some m \<Rightarrow> m
      | None \<Rightarrow> orElse (defaultModel config) ''unknown'')"

text \<open>
  An \<open>async\<close> function runs synchronously up to its first \<open>await\<close>. For \<open>executeTask\<close>
  that part reads the clock, looks the configuration up and either throws (the promise
  is rejected at once) or sends the request; the rest runs when the call has settled.
\<close>

datatype Pending =
    Rejected JsThrown
  | InFlight nat AIThoughtTask AIProviderConfig FetchOutcome nat

definition startTask :: "ManagerState \<Rightarrow> AIThoughtTask \<Rightarrow> Pending \<times> ManagerState" where
  "startTask st task =
     (let startTime = clock st in
      case map_of (configs st) (provider task) of
        None \<Rightarrow>
          (Rejected (ErrorObj (''Provider '' @ provider_name (provider task) @ '' is not configured'')),
           st)
      | Some config \<Rightarrow>
          (case net st (length (dispatched st)) task config of
             (outcome, latency) \<Rightarrow>
               (InFlight startTime task config outcome latency,
                st\<lparr> dispatched := dispatched st @ [task] \<rparr>)))"

text \<open>The \<open>try\<close> block after the \<open>await\<close> and its \<open>catch\<close>, with \<open>endTime\<close> read there.\<close>

definition settle ::
  "nat \<Rightarrow> AIThoughtTask \<Rightarrow> AIProviderConfig \<Rightarrow> FetchOutcome \<Rightarrow> nat \<Rightarrow> AIThoughtResponse" where
  "settle startTime task config outcome endTime =
     (case callAI task outcome of
        Inr r \<Rightarrow>
          \<lparr> taskId = id' task,
            rprovider = provider task,
            rmodel = resolvedModel task config,
            response = fst r,
            usage = snd r,
            rtimestamp = endTime,
            duration = int endTime - int startTime \<rparr>
      | Inl error \<Rightarrow>
          \<lparr> taskId = id' task,
            rprovider = provider task,
            rmodel = resolvedModel task config,
            response = ''Error: '' @ errorMessageOf error,
            usage = None,
            rtimestamp = endTime,
            duration = int endTime - int startTime \<rparr>)"

definition executeTask :: "ManagerState \<Rightarrow> AIThoughtTask \<Rightarrow> (JsThrown + AIThoughtResponse) \<times> ManagerState" where
  "executeTask st task =
     (case startTask st task of
        (Rejected e, st1) \<Rightarrow> (Inl e, st1)
      | (InFlight startTime t config outcome latency, st1) \<Rightarrow>
          (Inr (settle startTime t config outcome (startTime + latency)),
           st1\<lparr> clock := startTime + latency \<rparr>))"

section \<open>Parallel execution (executeParallelThoughts, lines 326-377)\<close>

text \<open>
  \<open>tasks.map(task => executeTask(task))\<close> starts every task in order, each up to its
  \<open>await\<close>, before anything settles.
\<close>

fun startAll :: "ManagerState \<Rightarrow> AIThoughtTask list \<Rightarrow> Pending list \<times> ManagerState" where
  "startAll st [] = ([], st)"
| "startAll st (t # ts) =
     (case startTask st t of
        (p, st1) \<Rightarrow> (case startAll st1 ts of (ps, st2) \<Rightarrow> (p # ps, st2)))"

text \<open>
  \<open>Promise.all\<close>: rejected by the first rejected member (those are rejected before any
  call answers, so the first in order wins), otherwise the results in the order of the
  promises, available when the last one has settled.
\<close>

fun promiseAll :: "Pending list \<Rightarrow> JsThrown + AIThoughtResponse list" where
  "promiseAll [] = Inr []"
| "promiseAll (Rejected e # ps) = Inl e"
| "promiseAll (InFlight startTime t config outcome latency # ps) =
     (case promiseAll ps of
        Inl e \<Rightarrow> Inl e
      | Inr rs \<Rightarrow> Inr (settle startTime t config outcome (startTime + latency) # rs))"

fun settleTime :: "Pending \<Rightarrow> nat" where
  "settleTime (Rejected e) = 0"
| "settleTime (InFlight startTime t config outcome latency) = startTime + latency"

definition joinTime :: "nat \<Rightarrow> Pending list \<Rightarrow> nat" where
  "joinTime now ps = fold max (map settleTime ps) now"

definition executeParallelThoughts ::
  "ManagerState \<Rightarrow> string \<Rightarrow> string \<Rightarrow> AIProvider list \<Rightarrow> ThoughtOptions option
     \<Rightarrow> (JsThrown + ParallelThoughtResult) \<times> ManagerState" where
  "executeParallelThoughts st sid basePrompt providers options =
     (let startTime = clock st;
          ts = buildTasks basePrompt providers options
      in case startAll st ts of
           (pending, st1) \<Rightarrow>
             (case promiseAll pending of
                Inl e \<Rightarrow> (Inl e, st1)
              | Inr rs \<Rightarrow>
                  (let endTime = joinTime (clock st1) pending;
                       result = \<lparr> sessionId = sid,
                                  tasks = ts,
                                  responses = rs,
                                  summary = None,
                                  consensus = None,
                                  totalDuration = int endTime - int startTime,
                                  timestamp = endTime \<rparr>
                   in (Inr result,
                       st1\<lparr> clock := endTime, sessions := (sessions st1)(sid \<mapsto> result) \<rparr>))))"

section \<open>Derived synthesis (summarizeResponses and findConsensus, lines 379-438)\<close>

text \<open>\<open>Array.prototype.join\<close>.\<close>

fun joinWith :: "string \<Rightarrow> string list \<Rightarrow> string" where
  "joinWith sep [] = []"
| "joinWith sep [x] = x"
| "joinWith sep (x # y # ys) = x @ sep @ joinWith sep (y # ys)"

text \<open>
  The fixed Japanese sentences of the two prompts, as their UTF-8 bytes: the opening line
  of the summary prompt (line 389) and its four closing lines (393-396), the opening line
  of the consensus prompt (line 421) and its closing line (425).
\<close>

definition summaryHeader :: string where
  "summaryHeader = [
     CHR 0xE4, CHR 0xBB, CHR 0xA5, CHR 0xE4, CHR 0xB8, CHR 0x8B, CHR 0xE3, CHR 0x81,
     CHR 0xAF, CHR 0xE5, CHR 0x90, CHR 0x8C, CHR 0xE3, CHR 0x81, CHR 0x98, CHR 0xE8,
     CHR 0xB3, CHR 0xAA, CHR 0xE5, CHR 0x95, CHR 0x8F, CHR 0xE3, CHR 0x81, CHR 0xAB,
     CHR 0xE5, CHR 0xAF, CHR 0xBE, CHR 0xE3, CHR 0x81, CHR 0x99, CHR 0xE3, CHR 0x82,
     CHR 0x8B, CHR 0xE8, CHR 0xA4, CHR 0x87, CHR 0xE6, CHR 0x95, CHR 0xB0, CHR 0xE3,
     CHR 0x81, CHR 0xAE, CHR 0x41, CHR 0x49, CHR 0xE3, CHR 0x81, CHR 0xAE, CHR 0xE5,
     CHR 0x9B, CHR 0x9E, CHR 0xE7, CHR 0xAD, CHR 0x94, CHR 0xE3, CHR 0x81, CHR 0xA7,
     CHR 0xE3, CHR 0x81, CHR 0x99, CHR 0xE3, CHR 0x80, CHR 0x82, CHR 0xE3, CHR 0x81,
     CHR 0x93, CHR 0xE3, CHR 0x82, CHR 0x8C, CHR 0xE3, CHR 0x82, CHR 0x89, CHR 0xE3,
     CHR 0x81, CHR 0xAE, CHR 0xE5, CHR 0x9B, CHR 0x9E, CHR 0xE7, CHR 0xAD, CHR 0x94,
     CHR 0xE3, CHR 0x82, CHR 0x92, CHR 0xE5, CHR 0x88, CHR 0x86, CHR 0xE6, CHR 0x9E,
     CHR 0x90, CHR 0xE3, CHR 0x81, CHR 0x97, CHR 0xE3, CHR 0x80, CHR 0x81, CHR 0xE5,
     CHR 0x85, CHR 0xB1, CHR 0xE9, CHR 0x80, CHR 0x9A, CHR 0xE7, CHR 0x82, CHR 0xB9,
     CHR 0xE3, CHR 0x80, CHR 0x81, CHR 0xE7, CHR 0x9B, CHR 0xB8, CHR 0xE9, CHR 0x81,
     CHR 0x95, CHR 0xE7, CHR 0x82, CHR 0xB9, CHR 0xE3, CHR 0x80, CHR 0x81, CHR 0xE3,
     CHR 0x81, CHR 0x9D, CHR 0xE3, CHR 0x81, CHR 0x97, CHR 0xE3, CHR 0x81, CHR 0xA6,
     CHR 0xE7, CHR 0xB7, CHR 0x8F, CHR 0xE5, CHR 0x90, CHR 0x88, CHR 0xE7, CHR 0x9A,
     CHR 0x84, CHR 0xE3, CHR 0x81, CHR 0xAA, CHR 0xE6, CHR 0xB4, CHR 0x9E, CHR 0xE5,
     CHR 0xAF, CHR 0x9F, CHR 0xE3, CHR 0x82, CHR 0x92, CHR 0xE3, CHR 0x81, CHR 0xBE,
     CHR 0xE3, CHR 0x81, CHR 0xA8, CHR 0xE3, CHR 0x82, CHR 0x81, CHR 0xE3, CHR 0x81,
     CHR 0xA6, CHR 0xE3, CHR 0x81, CHR 0x8F, CHR 0xE3, CHR 0x81, CHR 0xA0, CHR 0xE3,
     CHR 0x81, CHR 0x95, CHR 0xE3, CHR 0x81, CHR 0x84, CHR 0xE3, CHR 0x80, CHR 0x82]"

definition summaryFooter :: string where
  "summaryFooter = [
     CHR 0xE4, CHR 0xBB, CHR 0xA5, CHR 0xE4, CHR 0xB8, CHR 0x8B, CHR 0xE3, CHR 0x81,
     CHR 0xAE, CHR 0xE5, CHR 0xBD, CHR 0xA2, CHR 0xE5, CHR 0xBC, CHR 0x8F, CHR 0xE3,
     CHR 0x81, CHR 0xA7, CHR 0xE5, CHR 0x9B, CHR 0x9E, CHR 0xE7, CHR 0xAD, CHR 0x94,
     CHR 0xE3, CHR 0x81, CHR 0x97, CHR 0xE3, CHR 0x81, CHR 0xA6, CHR 0xE3, CHR 0x81,
     CHR 0x8F, CHR 0xE3, CHR 0x81, CHR 0xA0, CHR 0xE3, CHR 0x81, CHR 0x95, CHR 0xE3,
     CHR 0x81, CHR 0x84, CHR 0xEF, CHR 0xBC, CHR 0x9A, CHR 0x0A, CHR 0x31, CHR 0x2E,
     CHR 0x20, CHR 0xE5, CHR 0x85, CHR 0xB1, CHR 0xE9, CHR 0x80, CHR 0x9A, CHR 0xE3,
     CHR 0x81, CHR 0x99, CHR 0xE3, CHR 0x82, CHR 0x8B, CHR 0xE8, CHR 0xA6, CHR 0x8B,
     CHR 0xE8, CHR 0xA7, CHR 0xA3, CHR 0x0A, CHR 0x32, CHR 0x2E, CHR 0x20, CHR 0xE7,
     CHR 0x95, CHR 0xB0, CHR 0xE3, CHR 0x81, CHR 0xAA, CHR 0xE3, CHR 0x82, CHR 0x8B,
     CHR 0xE8, CHR 0xA6, CHR 0xB3, CHR 0xE7, CHR 0x82, CHR 0xB9, CHR 0x0A, CHR 0x33,
     CHR 0x2E, CHR 0x20, CHR 0xE7, CHR 0xB7, CHR 0x8F, CHR 0xE5, CHR 0x90, CHR 0x88,
     CHR 0xE7, CHR 0x9A, CHR 0x84, CHR 0xE3, CHR 0x81, CHR 0xAA, CHR 0xE7, CHR 0xB5,
     CHR 0x90, CHR 0xE8, CHR 0xAB, CHR 0x96]"

definition consensusHeader :: string where
  "consensusHeader = [
     CHR 0xE4, CHR 0xBB, CHR 0xA5, CHR 0xE4, CHR 0xB8, CHR 0x8B, CHR 0xE3, CHR 0x81,
     CHR 0xAF, CHR 0xE5, CHR 0x90, CHR 0x8C, CHR 0xE3, CHR 0x81, CHR 0x98, CHR 0xE8,
     CHR 0xB3, CHR 0xAA, CHR 0xE5, CHR 0x95, CHR 0x8F, CHR 0xE3, CHR 0x81, CHR 0xAB,
     CHR 0xE5, CHR 0xAF, CHR 0xBE, CHR 0xE3, CHR 0x81, CHR 0x99, CHR 0xE3, CHR 0x82,
     CHR 0x8B, CHR 0xE8, CHR 0xA4, CHR 0x87, CHR 0xE6, CHR 0x95, CHR 0xB0, CHR 0xE3,
     CHR 0x81, CHR 0xAE, CHR 0x41, CHR 0x49, CHR 0xE3, CHR 0x81, CHR 0xAE, CHR 0xE5,
     CHR 0x9B, CHR 0x9E, CHR 0xE7, CHR 0xAD, CHR 0x94, CHR 0xE3, CHR 0x81, CHR 0xA7,
     CHR 0xE3, CHR 0x81, CHR 0x99, CHR 0xE3, CHR 0x80, CHR 0x82, CHR 0xE3, CHR 0x81,
     CHR 0x93, CHR 0xE3, CHR 0x82, CHR 0x8C, CHR 0xE3, CHR 0x82, CHR 0x89, CHR 0xE3,
     CHR 0x81, CHR 0xAE, CHR 0xE5, CHR 0x9B, CHR 0x9E, CHR 0xE7, CHR 0xAD, CHR 0x94,
     CHR 0xE3, CHR 0x81, CHR 0x8B, CHR 0xE3, CHR 0x82, CHR 0x89, CHR 0xE6, CHR 0x9C,
     CHR 0x80, CHR 0xE3, CHR 0x82, CHR 0x82, CHR 0xE5, CHR 0x90, CHR 0x88, CHR 0xE7,
     CHR 0x90, CHR 0x86, CHR 0xE7, CHR 0x9A, CHR 0x84, CHR 0xE3, CHR 0x81, CHR 0xA7,
     CHR 0xE4, CHR 0xBF, CHR 0xA1, CHR 0xE9, CHR 0xA0, CHR 0xBC, CHR 0xE6, CHR 0x80,
     CHR 0xA7, CHR 0xE3, CHR 0x81, CHR 0xAE, CHR 0xE9, CHR 0xAB, CHR 0x98, CHR 0xE3,
     CHR 0x81, CHR 0x84, CHR 0xE7, CHR 0xB5, CHR 0x90, CHR 0xE8, CHR 0xAB, CHR 0x96,
     CHR 0xE3, CHR 0x82, CHR 0x92, CHR 0xE5, CHR 0xB0, CHR 0x8E, CHR 0xE3, CHR 0x81,
     CHR 0x8D, CHR 0xE5, CHR 0x87, CHR 0xBA, CHR 0xE3, CHR 0x81, CHR 0x97, CHR 0xE3,
     CHR 0x81, CHR 0xA6, CHR 0xE3, CHR 0x81, CHR 0x8F, CHR 0xE3, CHR 0x81, CHR 0xA0,
     CHR 0xE3, CHR 0x81, CHR 0x95, CHR 0xE3, CHR 0x81, CHR 0x84, CHR 0xE3, CHR 0x80,
     CHR 0x82]"

definition consensusFooter :: string where
  "consensusFooter = [
     CHR 0xE5, CHR 0x90, CHR 0x88, CHR 0xE6, CHR 0x84, CHR 0x8F, CHR 0xE3, CHR 0x81,
     CHR 0xA7, CHR 0xE3, CHR 0x81, CHR 0x8D, CHR 0xE3, CHR 0x82, CHR 0x8B, CHR 0xE7,
     CHR 0xB5, CHR 0x90, CHR 0xE8, CHR 0xAB, CHR 0x96, CHR 0xE3, CHR 0x82, CHR 0x92,
     CHR 0xE7, CHR 0xB0, CHR 0xA1, CHR 0xE6, CHR 0xBD, CHR 0x94, CHR 0xE3, CHR 0x81,
     CHR 0xAB, CHR 0xE8, CHR 0xBF, CHR 0xB0, CHR 0xE3, CHR 0x81, CHR 0xB9, CHR 0xE3,
     CHR 0x81, CHR 0xA6, CHR 0xE3, CHR 0x81, CHR 0x8F, CHR 0xE3, CHR 0x81, CHR 0xA0,
     CHR 0xE3, CHR 0x81, CHR 0x95, CHR 0xE3, CHR 0x81, CHR 0x84, CHR 0xEF, CHR 0xBC,
     CHR 0x9A]"

definition summaryLine :: "AIThoughtResponse \<Rightarrow> string" where
  "summaryLine r =
     ''**'' @ provider_name (rprovider r) @ '' ('' @ rmodel r @ '')**:'' @ [LF] @ response r"

definition consensusLine :: "AIThoughtResponse \<Rightarrow> string" where
  "consensusLine r = ''**'' @ provider_name (rprovider r) @ ''**: '' @ response r"

text \<open>The provider parameter defaults to \<open>'anthropic'\<close> when the caller passes none.\<close>

definition providerOrDefault :: "AIProvider option \<Rightarrow> AIProvider" where
  "providerOrDefault p = (case p of None \<Rightarrow> Anthropic | Some q \<Rightarrow> q)"

definition summaryTask :: "string \<Rightarrow> ParallelThoughtResult \<Rightarrow> AIProvider option \<Rightarrow> AIThoughtTask" where
  "summaryTask sid session summaryProvider =
     (let responsesText =
            joinWith ([LF, LF] @ ''---'' @ [LF, LF]) (map summaryLine (responses session));
          summaryPrompt = summaryHeader @ [LF, LF] @ responsesText @ [LF, LF] @ summaryFooter
      in \<lparr> id' = ''summary-'' @ sid,
           prompt = summaryPrompt,
           provider = providerOrDefault summaryProvider,
           model = None,
           temperature = Some (3 / 10),
           maxTokens = None,
           metadata = None \<rparr>)"

definition summarizeResponses ::
  "ManagerState \<Rightarrow> string \<Rightarrow> AIProvider option \<Rightarrow> (JsThrown + string) \<times> ManagerState" where
  "summarizeResponses st sid summaryProvider =
     (case sessions st sid of
        None \<Rightarrow> (Inl (ErrorObj (''Session '' @ sid @ '' not found'')), st)
      | Some session \<Rightarrow>
          (case executeTask st (summaryTask sid session summaryProvider) of
             (Inl e, st1) \<Rightarrow> (Inl e, st1)
           | (Inr summaryResponse, st1) \<Rightarrow>
               (Inr (response summaryResponse),
                st1\<lparr> sessions := (sessions st1)
                        (sid \<mapsto> session\<lparr> summary := Some (response summaryResponse) \<rparr>) \<rparr>)))"

definition consensusTask :: "string \<Rightarrow> ParallelThoughtResult \<Rightarrow> AIProvider option \<Rightarrow> AIThoughtTask" where
  "consensusTask sid session consensusProvider =
     (let responsesText = joinWith [LF, LF] (map consensusLine (responses session));
          consensusPrompt = consensusHeader @ [LF, LF] @ responsesText @ [LF, LF] @ consensusFooter
      in \<lparr> id' = ''consensus-'' @ sid,
           prompt = consensusPrompt,
           provider = providerOrDefault consensusProvider,
           model = None,
           temperature = Some (1 / 10),
           maxTokens = None,
           metadata = None \<rparr>)"

definition findConsensus ::
  "ManagerState \<Rightarrow> string \<Rightarrow> AIProvider option \<Rightarrow> (JsThrown + string) \<times> ManagerState" where
  "findConsensus st sid consensusProvider =
     (case sessions st sid of
        None \<Rightarrow> (Inl (ErrorObj (''Session '' @ sid @ '' not found'')), st)
      | Some session \<Rightarrow>
          (case executeTask st (consensusTask sid session consensusProvider) of
             (Inl e, st1) \<Rightarrow> (Inl e, st1)
           | (Inr consensusResponse, st1) \<Rightarrow>
               (Inr (response consensusResponse),
                st1\<lparr> sessions := (sessions st1)
                        (sid \<mapsto> session\<lparr> consensus := Some (response consensusResponse) \<rparr>) \<rparr>)))"

section \<open>The parallel-ai-think tool (lines 467-537)\<close>

text \<open>
  The arguments of the tool as its input schema admits them. The schema bounds the two
  numbers and nothing else: any list of the five provider names and any list of strings
  as variants pass, empty or with repetitions.
\<close>

record ThinkInput =
  inPrompt :: string
  inProviders :: "AIProvider list option"
  inSessionId :: "string option"
  inVariants :: "string list option"
  inTemperature :: "real option"
  inMaxTokens :: "real option"
  inCustomModels :: "(string \<rightharpoonup> string) option"

definition inputSchemaOk :: "ThinkInput \<Rightarrow> bool" where
  "inputSchemaOk inp =
     ((case inTemperature inp of None \<Rightarrow> True | Some t \<Rightarrow> 0 \<le> t \<and> t \<le> 2) \<and>
      (case inMaxTokens inp of None \<Rightarrow> True | Some m \<Rightarrow> 1 \<le> m \<and> m \<le> 4000))"

text \<open>The two fixed messages of the handler and the prefix of its wrapped failure.\<close>

definition msgNoProviders :: string where
  "msgNoProviders = [
     CHR 0xE5, CHR 0x88, CHR 0xA9, CHR 0xE7, CHR 0x94, CHR 0xA8, CHR 0xE5, CHR 0x8F,
     CHR 0xAF, CHR 0xE8, CHR 0x83, CHR 0xBD, CHR 0xE3, CHR 0x81, CHR 0xAA, CHR 0x41,
     CHR 0x49, CHR 0xE3, CHR 0x83, CHR 0x97, CHR 0xE3, CHR 0x83, CHR 0xAD, CHR 0xE3,
     CHR 0x83, CHR 0x90, CHR 0xE3, CHR 0x82, CHR 0xA4, CHR 0xE3, CHR 0x83, CHR 0x80,
     CHR 0xE3, CHR 0x83, CHR 0xBC, CHR 0xE3, CHR 0x81, CHR 0x8C, CHR 0xE3, CHR 0x81,
     CHR 0x82, CHR 0xE3, CHR 0x82, CHR 0x8A, CHR 0xE3, CHR 0x81, CHR 0xBE, CHR 0xE3,
     CHR 0x81, CHR 0x9B, CHR 0xE3, CHR 0x82, CHR 0x93, CHR 0xE3, CHR 0x80, CHR 0x82,
     CHR 0xE7, CHR 0x92, CHR 0xB0, CHR 0xE5, CHR 0xA2, CHR 0x83, CHR 0xE5, CHR 0xA4,
     CHR 0x89, CHR 0xE6, CHR 0x95, CHR 0xB0, CHR 0xE3, CHR 0x81, CHR 0xA7, CHR 0x41,
     CHR 0x50, CHR 0x49, CHR 0xE3, CHR 0x82, CHR 0xAD, CHR 0xE3, CHR 0x83, CHR 0xBC,
     CHR 0xE3, CHR 0x82, CHR 0x92, CHR 0xE8, CHR 0xA8, CHR 0xAD, CHR 0xE5, CHR 0xAE,
     CHR 0x9A, CHR 0xE3, CHR 0x81, CHR 0x97, CHR 0xE3, CHR 0x81, CHR 0xA6, CHR 0xE3,
     CHR 0x81, CHR 0x8F, CHR 0xE3, CHR 0x81, CHR 0xA0, CHR 0xE3, CHR 0x81, CHR 0x95,
     CHR 0xE3, CHR 0x81, CHR 0x84, CHR 0xE3, CHR 0x80, CHR 0x82]"

definition msgUnavailable :: string where
  "msgUnavailable = [
     CHR 0xE6, CHR 0x8C, CHR 0x87, CHR 0xE5, CHR 0xAE, CHR 0x9A, CHR 0xE3, CHR 0x81,
     CHR 0x95, CHR 0xE3, CHR 0x82, CHR 0x8C, CHR 0xE3, CHR 0x81, CHR 0x9F, CHR 0xE3,
     CHR 0x83, CHR 0x97, CHR 0xE3, CHR 0x83, CHR 0xAD, CHR 0xE3, CHR 0x83, CHR 0x90,
     CHR 0xE3, CHR 0x82, CHR 0xA4, CHR 0xE3, CHR 0x83, CHR 0x80, CHR 0xE3, CHR 0x83,
     CHR 0xBC, CHR 0xE3, CHR 0x81, CHR 0xAF, CHR 0xE5, CHR 0x88, CHR 0xA9, CHR 0xE7,
     CHR 0x94, CHR 0xA8, CHR 0xE3, CHR 0x81, CHR 0xA7, CHR 0xE3, CHR 0x81, CHR 0x8D,
     CHR 0xE3, CHR 0x81, CHR 0xBE, CHR 0xE3, CHR 0x81, CHR 0x9B, CHR 0xE3, CHR 0x82,
     CHR 0x93, CHR 0xE3, CHR 0x80, CHR 0x82]"

definition msgThinkFailed :: string where
  "msgThinkFailed = [
     CHR 0xE4, CHR 0xB8, CHR 0xA6, CHR 0xE8, CHR 0xA1, CHR 0x8C, CHR 0xE6, CHR 0x80,
     CHR 0x9D, CHR 0xE8, CHR 0x80, CHR 0x83, CHR 0xE3, CHR 0x81, CHR 0xAE, CHR 0xE5,
     CHR 0xAE, CHR 0x9F, CHR 0xE8, CHR 0xA1, CHR 0x8C, CHR 0xE3, CHR 0x81, CHR 0xAB,
     CHR 0xE5, CHR 0xA4, CHR 0xB1, CHR 0xE6, CHR 0x95, CHR 0x97, CHR 0xE3, CHR 0x81,
     CHR 0x97, CHR 0xE3, CHR 0x81, CHR 0xBE, CHR 0xE3, CHR 0x81, CHR 0x97, CHR 0xE3,
     CHR 0x81, CHR 0x9F, CHR 0x3A, CHR 0x20]"

text \<open>What the handler serialises of each response and of the whole result.\<close>

record ResponseView =
  vProvider :: AIProvider
  vModel :: string
  vResponse :: string
  vDuration :: int
  vUsage :: "Usage option"

record ThinkOutput =
  outSessionId :: string
  outPrompt :: string
  outProviders :: "AIProvider list"
  outResponses :: "ResponseView list"
  outTotalDuration :: int
  outTimestamp :: nat

definition responseView :: "AIThoughtResponse \<Rightarrow> ResponseView" where
  "responseView r =
     \<lparr> vProvider = rprovider r, vModel = rmodel r, vResponse = response r,
       vDuration = duration r, vUsage = usage r \<rparr>"

text \<open>
  The chosen providers are filtered by the configured ones; an absent or empty choice
  means all configured providers.
\<close>

definition targetProvidersOf :: "AIProvider list \<Rightarrow> AIProvider list option \<Rightarrow> AIProvider list" where
  "targetProvidersOf availableProviders providers =
     (case providers of
        None \<Rightarrow> availableProviders
      | Some ps \<Rightarrow>
          if length ps > 0 then filter (\<lambda>p. p \<in> set availableProviders) ps
          else availableProviders)"

text \<open>
  \<open>sessionId || `session-${Date.now()}-${...}`\<close>; \<open>rnd\<close> stands for the nine characters
  drawn from \<open>Math.random()\<close>.
\<close>

definition finalSessionIdOf :: "ManagerState \<Rightarrow> string option \<Rightarrow> string \<Rightarrow> string" where
  "finalSessionIdOf st sid rnd =
     orElse sid (''session-'' @ string_of_nat (clock st) @ ''-'' @ rnd)"

definition thinkOptions :: "ThinkInput \<Rightarrow> ThoughtOptions" where
  "thinkOptions inp =
     \<lparr> variants = inVariants inp,
       otemperature = inTemperature inp,
       omaxTokens = inMaxTokens inp,
       customModels = map_option (\<lambda>cm p. cm (provider_name p)) (inCustomModels inp) \<rparr>"

definition parallelAiThink ::
  "ManagerState \<Rightarrow> ThinkInput \<Rightarrow> string \<Rightarrow> (JsThrown + ThinkOutput) \<times> ManagerState" where
  "parallelAiThink st inp rnd =
     (let availableProviders = getAvailableProviders st in
      if length availableProviders = 0 then (Inl (ErrorObj msgNoProviders), st)
      else
        (let targetProviders = targetProvidersOf availableProviders (inProviders inp) in
         if length targetProviders = 0 then (Inl (ErrorObj msgUnavailable), st)
         else
           (let finalSessionId = finalSessionIdOf st (inSessionId inp) rnd in
            case executeParallelThoughts st finalSessionId (inPrompt inp) targetProviders
                   (Some (thinkOptions inp)) of
              (Inr result, st1) \<Rightarrow>
                (Inr \<lparr> outSessionId = sessionId result,
                       outPrompt = inPrompt inp,
                       outProviders = targetProviders,
                       outResponses = map responseView (responses result),
                       outTotalDuration = totalDuration result,
                       outTimestamp = timestamp result \<rparr>,
                 st1)
            | (Inl error, st1) \<Rightarrow>
                (Inl (ErrorObj (msgThinkFailed @ errorMessageOf error)), st1))))"

section \<open>Auxiliary definitions for the proofs\<close>

text \<open>Reading a decimal numeral back, to show that printing is injective.\<close>

definition digit_val :: "char \<Rightarrow> nat" where
  "digit_val c = of_char c - 48"

definition nat_of_string :: "string \<Rightarrow> nat" where
  "nat_of_string s = foldl (\<lambda>a c. 10 * a + digit_val c) 0 s"


text \<open>Each promise belongs to the task at its position.\<close>

fun pendingFor :: "(AIProvider \<times> AIProviderConfig) list \<Rightarrow> AIThoughtTask \<Rightarrow> Pending \<Rightarrow> bool" where
  "pendingFor cfg t (Rejected e) = (map_of cfg (provider t) = None)"
| "pendingFor cfg t (InFlight s t' c out lat) = (t' = t \<and> map_of cfg (provider t) = Some c)"


text \<open>
  A small concrete world for evaluating the model: one configured provider, a network
  that answers every call after 5 ms with a body in which both the chat path and the
  Anthropic path lead to the text \<open>answer\<close>, and one whose every call comes back with
  status 500 after 7 ms.
\<close>

definition exampleConfig :: AIProviderConfig where
  "exampleConfig =
     \<lparr> apiKey = ''k'', baseURL = Some ''https://api.openai.com/v1'', defaultModel = Some ''gpt-4'' \<rparr>"

definition answeringNet :: "nat \<Rightarrow> AIThoughtTask \<Rightarrow> AIProviderConfig \<Rightarrow> FetchOutcome \<times> nat" where
  "answeringNet n t c =
     (HttpReply True 200 ''OK''
        (JsonBody (JObj [(''choices'', JArr [JObj [(''message'', JObj [(''content'', JStr ''answer'')])]]),
                         (''content'', JArr [JObj [(''text'', JStr ''answer'')]])])),
      5)"

definition failingNet :: "nat \<Rightarrow> AIThoughtTask \<Rightarrow> AIProviderConfig \<Rightarrow> FetchOutcome \<times> nat" where
  "failingNet n t c = (HttpReply False 500 ''Internal Server Error'' (JsonBody (JObj [])), 7)"

definition exampleState :: ManagerState where
  "exampleState =
     \<lparr> configs = [(OpenAI, exampleConfig)], sessions = Map.empty, clock = 1000,
       net = answeringNet, dispatched = [] \<rparr>"

definition failingState :: ManagerState where
  "failingState = exampleState\<lparr> net := failingNet \<rparr>"

definition unconfiguredState :: ManagerState where
  "unconfiguredState = exampleState\<lparr> configs := [] \<rparr>"

definition exampleOptions :: "string list option \<Rightarrow> ThoughtOptions" where
  "exampleOptions vs =
     \<lparr> variants = vs, otemperature = None, omaxTokens = None, customModels = None \<rparr>"

text \<open>The label each adapter puts in front of its status error.\<close>

fun apiLabel :: "AIProvider \<Rightarrow> string" where
  "apiLabel OpenAI = ''OpenAI''"
| "apiLabel Anthropic = ''Anthropic''"
| "apiLabel Gemini = ''Gemini''"
| "apiLabel DeepSeek = ''DeepSeek''"
| "apiLabel Ollama = ''Ollama''"

definition exampleTask :: AIThoughtTask where
  "exampleTask = mkTask ''q'' None OpenAI 0 []"


text \<open>The example world after one stored batch, and the same with the failing network.\<close>

definition storedState :: ManagerState where
  "storedState = snd (executeParallelThoughts exampleState ''s'' ''q'' [OpenAI] None)"



text \<open>The text a synthesis call yields, and the state it leaves outside the store.\<close>

definition synthesisText :: "ManagerState \<Rightarrow> AIThoughtTask \<Rightarrow> AIProviderConfig \<Rightarrow> string" where
  "synthesisText st t c =
     response (settle (clock st) t c (fst (net st (length (dispatched st)) t c))
                 (clock st + snd (net st (length (dispatched st)) t c)))"

definition afterCall :: "ManagerState \<Rightarrow> AIThoughtTask \<Rightarrow> AIProviderConfig \<Rightarrow> ManagerState" where
  "afterCall st t c =
     st\<lparr> dispatched := dispatched st @ [t],
         clock := clock st + snd (net st (length (dispatched st)) t c) \<rparr>"

definition storedSession :: ParallelThoughtResult where
  "storedSession =
     \<lparr> sessionId = ''s'',
       tasks = [exampleTask],
       responses = [\<lparr> taskId = ''openai-0'', rprovider = OpenAI, rmodel = ''gpt-4'',
                      response = ''answer'', usage = None, rtimestamp = 1005, duration = 5 \<rparr>],
       summary = None, consensus = None, totalDuration = 5, timestamp = 1005 \<rparr>"

definition afterSummary :: ManagerState where
  "afterSummary = snd (summarizeResponses storedState ''s'' (Some OpenAI))"

definition afterBoth :: ManagerState where
  "afterBoth = snd (findConsensus afterSummary ''s'' (Some OpenAI))"

text \<open>Inputs of the tool for the example world, and a second batch under the same identifier.\<close>

definition dupInput :: ThinkInput where
  "dupInput =
     \<lparr> inPrompt = ''q'', inProviders = Some [OpenAI, OpenAI], inSessionId = Some ''s'',
       inVariants = None, inTemperature = None, inMaxTokens = None, inCustomModels = None \<rparr>"

definition emptyVariantsInput :: ThinkInput where
  "emptyVariantsInput = dupInput\<lparr> inProviders := None, inVariants := Some [] \<rparr>"

definition mixedInput :: ThinkInput where
  "mixedInput = dupInput\<lparr> inProviders := Some [OpenAI, Gemini] \<rparr>"

definition unavailableInput :: ThinkInput where
  "unavailableInput = dupInput\<lparr> inProviders := Some [Gemini] \<rparr>"


definition secondState :: ManagerState where
  "secondState =
     snd (executeParallelThoughts storedState ''s'' ''again'' [OpenAI]
            (Some (exampleOptions (Some [''a'']))))"

definition secondSession :: ParallelThoughtResult where
  "secondSession =
     \<lparr> sessionId = ''s'',
       tasks = [mkTask ''again'' (Some (exampleOptions (Some [''a'']))) OpenAI 0 ''a''],
       responses = [\<lparr> taskId = ''openai-0'', rprovider = OpenAI, rmodel = ''gpt-4'',
                      response = ''answer'', usage = None, rtimestamp = 1010, duration = 5 \<rparr>],
       summary = None, consensus = None, totalDuration = 5, timestamp = 1010 \<rparr>"

definition twoByTwo :: "AIThoughtTask list" where
  "twoByTwo = buildTasks ''q'' [OpenAI, Anthropic] (Some (exampleOptions (Some [''a'', []])))"

text \<open>
  Further worlds: a network that cannot be reached, one that answers with text that
  is not JSON, one that answers with the empty object, a world where only Gemini is
  configured, and one where OpenAI and Anthropic both are.
\<close>

definition faultNet :: "nat \<Rightarrow> AIThoughtTask \<Rightarrow> AIProviderConfig \<Rightarrow> FetchOutcome \<times> nat" where
  "faultNet n t c = (NetworkFault (ErrorObj ''fetch failed''), 3)"

definition garbageNet :: "nat \<Rightarrow> AIThoughtTask \<Rightarrow> AIProviderConfig \<Rightarrow> FetchOutcome \<times> nat" where
  "garbageNet n t c =
     (HttpReply True 200 ''OK'' (Unparseable (ErrorObj ''Unexpected end of JSON input'')), 4)"

definition emptyObjectNet :: "nat \<Rightarrow> AIThoughtTask \<Rightarrow> AIProviderConfig \<Rightarrow> FetchOutcome \<times> nat" where
  "emptyObjectNet n t c = (HttpReply True 200 ''OK'' (JsonBody (JObj [])), 6)"

definition geminiTask :: AIThoughtTask where
  "geminiTask = mkTask ''q'' None Gemini 0 []"

definition geminiState :: ManagerState where
  "geminiState =
     exampleState\<lparr> configs := [(Gemini, exampleConfig\<lparr> defaultModel := Some ''gemini-pro'' \<rparr>)],
                   net := emptyObjectNet \<rparr>"


definition faultState :: ManagerState where
  "faultState = exampleState\<lparr> net := faultNet \<rparr>"

definition garbageState :: ManagerState where
  "garbageState = exampleState\<lparr> net := garbageNet \<rparr>"

definition emptyObjectState :: ManagerState where
  "emptyObjectState = exampleState\<lparr> net := emptyObjectNet \<rparr>"

definition anthropicConfig :: AIProviderConfig where
  "anthropicConfig =
     \<lparr> apiKey = ''a'', baseURL = Some ''https://api.anthropic.com'',
       defaultModel = Some ''claude-3-5-sonnet-20241022'' \<rparr>"

definition twoProviderState :: ManagerState where
  "twoProviderState =
     exampleState\<lparr> configs := [(OpenAI, exampleConfig), (Anthropic, anthropicConfig)] \<rparr>"

definition productRun :: "(JsThrown + ParallelThoughtResult) \<times> ManagerState" where
  "productRun =
     executeParallelThoughts twoProviderState ''s'' ''q'' [OpenAI, Anthropic]
       (Some (exampleOptions (Some [''a'', ''b'', ''c''])))"


definition allProvidersInput :: ThinkInput where
  "allProvidersInput = dupInput\<lparr> inProviders := None \<rparr>"

section \<open>Properties of task expansion\<close>

lemma length_tasksFor: "length (tasksFor b opts vs p) = length vs"
  by (simp add: tasksFor_def)

lemma length_concat_uniform:
  "(\<forall>xs \<in> set xss. length xs = m) \<Longrightarrow> length (concat xss) = length xss * m"
  by (induction xss) auto

lemma length_buildTasks:
  "length (buildTasks b ps opts) = length ps * length (variantsOf opts)"
  unfolding buildTasks_def
  by (subst length_concat_uniform[where m = "length (variantsOf opts)"]) (auto simp: length_tasksFor)

lemma nth_concat_uniform:
  "(\<forall>xs \<in> set xss. length xs = m) \<Longrightarrow> k < length xss * m \<Longrightarrow>
     concat xss ! k = xss ! (k div m) ! (k mod m)"
proof (induction xss arbitrary: k)
  case Nil
  then show ?case by simp
next
  case (Cons xs xss)
  have m: "0 < m" using Cons.prems(2) by (cases m) auto
  show ?case
  proof (cases "k < m")
    case True
    with Cons.prems show ?thesis by (simp add: nth_append)
  next
    case False
    then have km: "m \<le> k" by simp
    then have d: "k div m = Suc ((k - m) div m)" and r: "k mod m = (k - m) mod m"
      using m by (simp_all add: le_div_geq le_mod_geq)
    have "k - m < length xss * m" using Cons.prems(2) km by simp
    with Cons.IH[of "k - m"] Cons.prems(1)
    have "concat xss ! (k - m) = xss ! ((k - m) div m) ! ((k - m) mod m)" by simp
    with False Cons.prems(1) d r show ?thesis by (simp add: nth_append)
  qed
qed

lemma nth_buildTasks:
  assumes "k < length ps * length (variantsOf opts)"
  shows "buildTasks b ps opts ! k =
           mkTask b opts (ps ! (k div length (variantsOf opts))) (k mod length (variantsOf opts))
             (variantsOf opts ! (k mod length (variantsOf opts)))"
proof -
  let ?vs = "variantsOf opts"
  let ?m = "length ?vs"
  have m: "0 < ?m" using assms by (cases ?m) auto
  have d: "k div ?m < length ps" using assms m by (simp add: less_mult_imp_div_less)
  have r: "k mod ?m < ?m" using m by simp
  have "buildTasks b ps opts ! k = map (tasksFor b opts ?vs) ps ! (k div ?m) ! (k mod ?m)"
    unfolding buildTasks_def using assms
    by (intro nth_concat_uniform) (auto simp: length_tasksFor)
  also have "\<dots> = tasksFor b opts ?vs (ps ! (k div ?m)) ! (k mod ?m)" using d by simp
  also have "\<dots> = mkTask b opts (ps ! (k div ?m)) (k mod ?m) (?vs ! (k mod ?m))"
    using r by (simp add: tasksFor_def)
  finally show ?thesis .
qed


lemma digit_val_digit_char: "d < 10 \<Longrightarrow> digit_val (digit_char d) = d"
proof -
  assume "d < 10"
  then have "d \<in> {0, 1, 2, 3, 4, 5, 6, 7, 8, 9}" by auto
  then show ?thesis
    by (auto simp: digit_val_def digit_char_def)
qed

lemma nat_of_string_snoc: "nat_of_string (s @ [c]) = 10 * nat_of_string s + digit_val c"
  by (simp add: nat_of_string_def)

lemma nat_of_string_of_nat: "nat_of_string (string_of_nat n) = n"
proof (induction n rule: string_of_nat.induct)
  case (1 n)
  show ?case
  proof (cases "n < 10")
    case True
    then show ?thesis
      by (subst string_of_nat.simps) (simp add: nat_of_string_def digit_val_digit_char)
  next
    case False
    with 1 have "nat_of_string (string_of_nat (n div 10)) = n div 10" by simp
    with False show ?thesis
      by (subst string_of_nat.simps) (simp add: nat_of_string_snoc digit_val_digit_char)
  qed
qed

lemma string_of_nat_inj: "string_of_nat i = string_of_nat j \<Longrightarrow> i = j"
  by (metis nat_of_string_of_nat)

lemma taskIdOf_inj: "taskIdOf p i = taskIdOf q j \<longleftrightarrow> p = q \<and> i = j"
  by (cases p; cases q) (auto simp: taskIdOf_def dest: string_of_nat_inj)

lemma concat_map_product:
  "concat (map (\<lambda>p. map (f p) js) ps) = map (\<lambda>(p, j). f p j) (List.product ps js)"
  by (induction ps) (simp_all add: comp_def)

lemma ids_buildTasks:
  "map id' (buildTasks b ps opts) =
     map (\<lambda>(p, i). taskIdOf p i) (List.product ps [0..<length (variantsOf opts)])"
proof -
  have "map id' (buildTasks b ps opts) =
          concat (map (\<lambda>p. map (taskIdOf p) [0..<length (variantsOf opts)]) ps)"
    by (simp add: buildTasks_def tasksFor_def mkTask_def map_concat comp_def)
  then show ?thesis by (simp add: concat_map_product)
qed

lemma distinct_ids_buildTasks:
  assumes "distinct ps"
  shows "distinct (map id' (buildTasks b ps opts))"
proof -
  have "inj_on (\<lambda>(p, i). taskIdOf p i) (set (List.product ps [0..<length (variantsOf opts)]))"
    by (auto simp: inj_on_def taskIdOf_inj)
  moreover have "distinct (List.product ps [0..<length (variantsOf opts)])"
    using assms by (simp add: distinct_product)
  ultimately show ?thesis
    by (simp add: ids_buildTasks distinct_map)
qed

section \<open>Properties of the executor and of the join\<close>

lemma taskId_settle: "taskId (settle s t c out e) = id' t"
  by (simp add: settle_def split: sum.splits)

lemma rprovider_settle: "rprovider (settle s t c out e) = provider t"
  by (simp add: settle_def split: sum.splits)

lemma duration_settle: "duration (settle s t c out e) = int e - int s"
  by (simp add: settle_def split: sum.splits)


lemma startTask_unconfigured:
  "map_of (configs st) (provider t) = None \<Longrightarrow>
     startTask st t =
       (Rejected (ErrorObj (''Provider '' @ provider_name (provider t) @ '' is not configured'')), st)"
  by (simp add: startTask_def)

lemma startTask_configured:
  "map_of (configs st) (provider t) = Some c \<Longrightarrow>
     startTask st t =
       (InFlight (clock st) t c (fst (net st (length (dispatched st)) t c))
          (snd (net st (length (dispatched st)) t c)),
        st\<lparr> dispatched := dispatched st @ [t] \<rparr>)"
  by (simp add: startTask_def split: prod.splits)

lemma startTask_frame:
  "startTask st t = (p, st1) \<Longrightarrow>
     sessions st1 = sessions st \<and> clock st1 = clock st \<and> configs st1 = configs st \<and>
     net st1 = net st"
  by (cases "map_of (configs st) (provider t)")
     (auto simp: startTask_unconfigured startTask_configured)

lemma startTask_pendingFor: "startTask st t = (p, st1) \<Longrightarrow> pendingFor (configs st) t p"
  by (cases "map_of (configs st) (provider t)")
     (auto simp: startTask_unconfigured startTask_configured)

lemma startAll_frame:
  "startAll st ts = (ps, st1) \<Longrightarrow>
     sessions st1 = sessions st \<and> clock st1 = clock st \<and> configs st1 = configs st \<and>
     net st1 = net st"
proof (induction ts arbitrary: st ps st1)
  case Nil
  then show ?case by simp
next
  case (Cons t ts)
  obtain p sta where a: "startTask st t = (p, sta)" by (cases "startTask st t")
  obtain qs stb where b: "startAll sta ts = (qs, stb)" by (cases "startAll sta ts")
  from Cons.prems a b have "st1 = stb" by simp
  with Cons.IH[OF b] startTask_frame[OF a] show ?case by simp
qed

lemma startAll_pendingFor:
  "startAll st ts = (ps, st1) \<Longrightarrow> list_all2 (pendingFor (configs st)) ts ps"
proof (induction ts arbitrary: st ps st1)
  case Nil
  then show ?case by simp
next
  case (Cons t ts)
  obtain p sta where a: "startTask st t = (p, sta)" by (cases "startTask st t")
  obtain qs stb where b: "startAll sta ts = (qs, stb)" by (cases "startAll sta ts")
  from Cons.prems a b have ps: "ps = p # qs" by simp
  from startTask_frame[OF a] have "configs sta = configs st" by simp
  with Cons.IH[OF b] have "list_all2 (pendingFor (configs st)) ts qs" by simp
  with startTask_pendingFor[OF a] ps show ?case by simp
qed

text \<open>A resolved \<open>Promise.all\<close> holds one response per promise, for that promise's task.\<close>

lemma promiseAll_Inr:
  "list_all2 (pendingFor cfg) ts ps \<Longrightarrow> promiseAll ps = Inr rs \<Longrightarrow>
     list_all2 (\<lambda>t r. taskId r = id' t \<and> rprovider r = provider t) ts rs"
proof (induction ts ps arbitrary: rs rule: list_all2_induct)
  case Nil
  then show ?case by simp
next
  case (Cons t ts p ps)
  show ?case
  proof (cases p)
    case (Rejected e)
    with Cons.prems show ?thesis by simp
  next
    case (InFlight s t' c out lat)
    with Cons.hyps(1) have t': "t' = t" by simp
    from Cons.prems InFlight obtain rs' where
      rs': "promiseAll ps = Inr rs'" and rs: "rs = settle s t' c out (s + lat) # rs'"
      by (auto split: sum.splits)
    from Cons.IH[OF rs'] rs t' show ?thesis
      by (simp add: taskId_settle rprovider_settle)
  qed
qed

lemma promiseAll_all_configured:
  "list_all2 (pendingFor cfg) ts ps \<Longrightarrow> \<forall>t \<in> set ts. map_of cfg (provider t) \<noteq> None \<Longrightarrow>
     \<exists>rs. promiseAll ps = Inr rs"
proof (induction ts ps rule: list_all2_induct)
  case Nil
  then show ?case by simp
next
  case (Cons t ts p ps)
  then obtain rs where "promiseAll ps = Inr rs" by auto
  moreover from Cons.hyps(1) Cons.prems obtain s c out lat where "p = InFlight s t c out lat"
    by (cases p) auto
  ultimately show ?case by simp
qed

lemma promiseAll_rejects:
  "list_all2 (pendingFor cfg) ts ps \<Longrightarrow> promiseAll ps = Inl e \<Longrightarrow>
     \<exists>t \<in> set ts. map_of cfg (provider t) = None"
proof (induction ts ps rule: list_all2_induct)
  case Nil
  then show ?case by simp
next
  case (Cons t ts p ps)
  then show ?case by (cases p) (auto split: sum.splits)
qed

lemma provider_mkTask: "provider (mkTask b opts p i v) = p"
  by (simp add: mkTask_def)

lemma providers_buildTasks: "t \<in> set (buildTasks b ps opts) \<Longrightarrow> provider t \<in> set ps"
  by (auto simp: buildTasks_def tasksFor_def provider_mkTask)

text \<open>What a call that returns has done.\<close>

lemma executeParallelThoughts_Inr:
  assumes "executeParallelThoughts st sid b ps opts = (Inr r, st')"
  shows "\<exists>pending st1.
           startAll st (buildTasks b ps opts) = (pending, st1) \<and>
           promiseAll pending = Inr (responses r) \<and>
           r = \<lparr> sessionId = sid, tasks = buildTasks b ps opts, responses = responses r,
                 summary = None, consensus = None,
                 totalDuration = int (joinTime (clock st) pending) - int (clock st),
                 timestamp = joinTime (clock st) pending \<rparr> \<and>
           st' = st1\<lparr> clock := joinTime (clock st) pending,
                       sessions := (sessions st)(sid \<mapsto> r) \<rparr>"
proof -
  obtain pending st1 where a: "startAll st (buildTasks b ps opts) = (pending, st1)"
    by (cases "startAll st (buildTasks b ps opts)")
  from startAll_frame[OF a] have f: "clock st1 = clock st" "sessions st1 = sessions st" by simp_all
  from assms a f show ?thesis
    by (auto simp: executeParallelThoughts_def Let_def split: sum.splits)
qed

lemma executeParallelThoughts_returns:
  assumes "\<forall>p \<in> set ps. map_of (configs st) p \<noteq> None"
  shows "\<exists>r st'. executeParallelThoughts st sid b ps opts = (Inr r, st')"
proof -
  obtain pending st1 where a: "startAll st (buildTasks b ps opts) = (pending, st1)"
    by (cases "startAll st (buildTasks b ps opts)")
  have "\<forall>t \<in> set (buildTasks b ps opts). map_of (configs st) (provider t) \<noteq> None"
    using assms providers_buildTasks by blast
  with promiseAll_all_configured[OF startAll_pendingFor[OF a]]
  obtain rs where "promiseAll pending = Inr rs" by blast
  with a show ?thesis
    by (simp add: executeParallelThoughts_def Let_def)
qed

lemma callAI_network_fault: "callAI t (NetworkFault e) = Inl e"
  by (cases "provider t")
     (simp_all add: callAI_def httpCall_def callOpenAI_def callAnthropic_def callGemini_def
        callDeepSeek_def callOllama_def)

lemma callAI_bad_status:
  "callAI t (HttpReply False status statusText body) =
     Inl (ErrorObj (apiLabel (provider t) @ '' API error: '' @ string_of_nat status @ '' '' @ statusText))"
  by (cases "provider t")
     (simp_all add: callAI_def httpCall_def callOpenAI_def callAnthropic_def callGemini_def
        callDeepSeek_def callOllama_def)

lemma callAI_unparseable: "callAI t (HttpReply True status statusText (Unparseable e)) = Inl e"
  by (cases "provider t")
     (simp_all add: callAI_def httpCall_def callOpenAI_def callAnthropic_def callGemini_def
        callDeepSeek_def callOllama_def)

lemma executeTask_configured:
  "map_of (configs st) (provider t) = Some c \<Longrightarrow>
     executeTask st t =
       (Inr (settle (clock st) t c (fst (net st (length (dispatched st)) t c))
               (clock st + snd (net st (length (dispatched st)) t c))),
        st\<lparr> dispatched := dispatched st @ [t],
            clock := clock st + snd (net st (length (dispatched st)) t c) \<rparr>)"
  by (simp add: executeTask_def startTask_configured)

lemma executeTask_unconfigured:
  "map_of (configs st) (provider t) = None \<Longrightarrow>
     executeTask st t =
       (Inl (ErrorObj (''Provider '' @ provider_name (provider t) @ '' is not configured'')), st)"
  by (simp add: executeTask_def startTask_unconfigured)

lemma executeTask_sessions: "executeTask st t = (res, st1) \<Longrightarrow> sessions st1 = sessions st"
  by (cases "map_of (configs st) (provider t)")
     (auto simp: executeTask_configured executeTask_unconfigured)

lemma executeTask_configs: "executeTask st t = (res, st1) \<Longrightarrow> configs st1 = configs st"
  by (cases "map_of (configs st) (provider t)")
     (auto simp: executeTask_configured executeTask_unconfigured)


section \<open>Properties of the derived synthesis\<close>

lemma summarizeResponses_unknown:
  "sessions st sid = None \<Longrightarrow>
     summarizeResponses st sid p = (Inl (ErrorObj (''Session '' @ sid @ '' not found'')), st)"
  by (simp add: summarizeResponses_def)

lemma findConsensus_unknown:
  "sessions st sid = None \<Longrightarrow>
     findConsensus st sid p = (Inl (ErrorObj (''Session '' @ sid @ '' not found'')), st)"
  by (simp add: findConsensus_def)

lemma summarizeResponses_throws:
  "sessions st sid = Some s \<Longrightarrow>
   map_of (configs st) (providerOrDefault p) = None \<Longrightarrow>
     summarizeResponses st sid p =
       (Inl (ErrorObj (''Provider '' @ provider_name (providerOrDefault p) @ '' is not configured'')), st)"
  by (simp add: summarizeResponses_def summaryTask_def Let_def executeTask_unconfigured)

lemma findConsensus_throws:
  "sessions st sid = Some s \<Longrightarrow>
   map_of (configs st) (providerOrDefault p) = None \<Longrightarrow>
     findConsensus st sid p =
       (Inl (ErrorObj (''Provider '' @ provider_name (providerOrDefault p) @ '' is not configured'')), st)"
  by (simp add: findConsensus_def consensusTask_def Let_def executeTask_unconfigured)

lemma provider_summaryTask: "provider (summaryTask sid s p) = providerOrDefault p"
  by (simp add: summaryTask_def Let_def)

lemma provider_consensusTask: "provider (consensusTask sid s p) = providerOrDefault p"
  by (simp add: consensusTask_def Let_def)

lemma summarizeResponses_returns:
  "sessions st sid = Some s \<Longrightarrow>
   map_of (configs st) (providerOrDefault p) = Some c \<Longrightarrow>
     summarizeResponses st sid p =
       (Inr (synthesisText st (summaryTask sid s p) c),
        (afterCall st (summaryTask sid s p) c)
          \<lparr> sessions := (sessions st)
               (sid \<mapsto> s\<lparr> summary := Some (synthesisText st (summaryTask sid s p) c) \<rparr>) \<rparr>)"
  by (simp add: summarizeResponses_def executeTask_configured provider_summaryTask
        synthesisText_def afterCall_def)

lemma findConsensus_returns:
  "sessions st sid = Some s \<Longrightarrow>
   map_of (configs st) (providerOrDefault p) = Some c \<Longrightarrow>
     findConsensus st sid p =
       (Inr (synthesisText st (consensusTask sid s p) c),
        (afterCall st (consensusTask sid s p) c)
          \<lparr> sessions := (sessions st)
               (sid \<mapsto> s\<lparr> consensus := Some (synthesisText st (consensusTask sid s p) c) \<rparr>) \<rparr>)"
  by (simp add: findConsensus_def executeTask_configured provider_consensusTask
        synthesisText_def afterCall_def)

lemma summarizeResponses_store:
  assumes "sessions st sid = Some s"
  shows "\<exists>x. sessions (snd (summarizeResponses st sid p)) = (sessions st)(sid \<mapsto> s\<lparr> summary := x \<rparr>)"
proof (cases "map_of (configs st) (providerOrDefault p)")
  case None
  have "(sessions st)(sid \<mapsto> s\<lparr> summary := summary s \<rparr>) = sessions st"
    using assms by (auto simp: fun_eq_iff)
  with summarizeResponses_throws[OF assms None] show ?thesis by (metis snd_conv)
next
  case (Some c)
  from summarizeResponses_returns[OF assms Some] show ?thesis by auto
qed

lemma findConsensus_store:
  assumes "sessions st sid = Some s"
  shows "\<exists>y. sessions (snd (findConsensus st sid p)) = (sessions st)(sid \<mapsto> s\<lparr> consensus := y \<rparr>)"
proof (cases "map_of (configs st) (providerOrDefault p)")
  case None
  have "(sessions st)(sid \<mapsto> s\<lparr> consensus := consensus s \<rparr>) = sessions st"
    using assms by (auto simp: fun_eq_iff)
  with findConsensus_throws[OF assms None] show ?thesis by (metis snd_conv)
next
  case (Some c)
  from findConsensus_returns[OF assms Some] show ?thesis by auto
qed

lemma summarizeResponses_Inr:
  assumes "sessions st sid = Some s" and "summarizeResponses st sid p = (Inr a, st1)"
  shows "sessions st1 = (sessions st)(sid \<mapsto> s\<lparr> summary := Some a \<rparr>) \<and> configs st1 = configs st"
proof (cases "map_of (configs st) (providerOrDefault p)")
  case None
  with summarizeResponses_throws[OF assms(1) None] assms(2) show ?thesis by simp
next
  case (Some c)
  from summarizeResponses_returns[OF assms(1) Some] assms(2) show ?thesis
    by (auto simp: afterCall_def)
qed

lemma findConsensus_Inr:
  assumes "sessions st sid = Some s" and "findConsensus st sid p = (Inr a, st1)"
  shows "sessions st1 = (sessions st)(sid \<mapsto> s\<lparr> consensus := Some a \<rparr>) \<and> configs st1 = configs st"
proof (cases "map_of (configs st) (providerOrDefault p)")
  case None
  with findConsensus_throws[OF assms(1) None] assms(2) show ?thesis by simp
next
  case (Some c)
  from findConsensus_returns[OF assms(1) Some] assms(2) show ?thesis
    by (auto simp: afterCall_def)
qed

section \<open>Properties of the store and of the tool handler\<close>

lemma startTask_sessions_irrelevant:
  "startTask (st\<lparr> sessions := m \<rparr>) t =
     (fst (startTask st t), (snd (startTask st t))\<lparr> sessions := m \<rparr>)"
  by (cases "map_of (configs st) (provider t)")
     (simp_all add: startTask_def split: prod.splits)

lemma startAll_sessions_irrelevant:
  "startAll (st\<lparr> sessions := m \<rparr>) ts =
     (fst (startAll st ts), (snd (startAll st ts))\<lparr> sessions := m \<rparr>)"
proof (induction ts arbitrary: st)
  case Nil
  then show ?case by simp
next
  case (Cons t ts)
  show ?case
    by (simp add: startTask_sessions_irrelevant Cons.IH split: prod.splits)
qed

lemma executeParallelThoughts_result_irrelevant:
  "fst (executeParallelThoughts (st\<lparr> sessions := m \<rparr>) sid b ps opts) =
   fst (executeParallelThoughts st sid b ps opts)"
proof -
  obtain pending st1 where a: "startAll st (buildTasks b ps opts) = (pending, st1)"
    by (cases "startAll st (buildTasks b ps opts)")
  from startAll_frame[OF a] have c: "clock st1 = clock st" by simp
  from a have "startAll (st\<lparr> sessions := m \<rparr>) (buildTasks b ps opts) =
                 (pending, st1\<lparr> sessions := m \<rparr>)"
    by (simp add: startAll_sessions_irrelevant)
  with a c show ?thesis
    by (simp add: executeParallelThoughts_def Let_def split: sum.splits)
qed

lemma configured_iff: "map_of (configs st) p = None \<longleftrightarrow> p \<notin> set (getAvailableProviders st)"
  by (simp add: getAvailableProviders_def map_of_eq_None_iff)

lemma targetProviders_configured:
  "p \<in> set (targetProvidersOf (getAvailableProviders st) ps) \<Longrightarrow> map_of (configs st) p \<noteq> None"
  unfolding configured_iff
  by (auto simp: targetProvidersOf_def split: option.splits if_splits)

lemma targetProviders_empty_iff:
  "getAvailableProviders st \<noteq> [] \<Longrightarrow>
     targetProvidersOf (getAvailableProviders st) chosen = [] \<longleftrightarrow>
       (\<exists>ps. chosen = Some ps \<and> ps \<noteq> [] \<and> (\<forall>p \<in> set ps. map_of (configs st) p = None))"
  unfolding configured_iff
  by (auto simp: targetProvidersOf_def filter_empty_conv split: option.splits)

section \<open>Properties of the adapters, positions in a batch, and what the handler runs\<close>

lemma readChat_fails:
  "isl (readChat data) = (data = JNull \<or> nullish (ownProp data ''choices''))"
  by (cases data; cases "ownProp data ''choices''"; cases "the (ownProp data ''choices'')")
     (auto simp: readChat_def dot_def at0_def nullish_def split: sum.splits)

lemma readAnthropic_fails:
  "isl (readAnthropic data) = (data = JNull \<or> nullish (ownProp data ''content''))"
  by (cases data; cases "ownProp data ''content''"; cases "the (ownProp data ''content'')")
     (auto simp: readAnthropic_def dot_def at0_def nullish_def split: sum.splits)

lemma readGemini_fails: "isl (readGemini data) = (data = JNull)"
  by (cases data) (auto simp: readGemini_def dot_def split: sum.splits)

lemma readOllama_fails: "isl (readOllama data) = (data = JNull)"
  by (cases data) (auto simp: readOllama_def dot_def split: sum.splits)

lemma callAI_json_fails:
  "isl (callAI t (HttpReply True status statusText (JsonBody data))) =
     (data = JNull \<or>
      (provider t \<in> {OpenAI, DeepSeek} \<and> nullish (ownProp data ''choices'')) \<or>
      (provider t = Anthropic \<and> nullish (ownProp data ''content'')))"
  by (cases "provider t")
     (simp_all add: callAI_def httpCall_def callOpenAI_def callAnthropic_def callGemini_def
        callDeepSeek_def callOllama_def readChat_fails readAnthropic_fails readGemini_fails
        readOllama_fails)

lemma div_mod_position:
  "j < m \<Longrightarrow> (i * m + j) div m = (i::nat) \<and> (i * m + j) mod m = j"
  by simp

lemma position_bound: "i < n \<Longrightarrow> j < m \<Longrightarrow> i * m + j < n * (m::nat)"
proof -
  assume a: "i < n" "j < m"
  then have "i * m + j < i * m + m" by simp
  also have "\<dots> = Suc i * m" by simp
  also have "\<dots> \<le> n * m" using a(1) by (intro mult_le_mono1) simp
  finally show ?thesis .
qed

lemma variantsOf_given: "variantsOf (Some (opts\<lparr> variants := Some vs \<rparr>)) = vs"
  by (simp add: variantsOf_def)

lemma string_of_nat_0: "string_of_nat 0 = ''0''"
  by (subst string_of_nat.simps) (simp add: digit_char_def)

lemma startAll_dispatched:
  "\<forall>t \<in> set ts. map_of (configs st) (provider t) \<noteq> None \<Longrightarrow>
     startAll st ts = (ps, st1) \<Longrightarrow> dispatched st1 = dispatched st @ ts"
proof (induction ts arbitrary: st ps st1)
  case Nil
  then show ?case by simp
next
  case (Cons t ts)
  from Cons.prems(1) obtain c where c: "map_of (configs st) (provider t) = Some c" by auto
  let ?sta = "st\<lparr> dispatched := dispatched st @ [t] \<rparr>"
  obtain qs stb where b: "startAll ?sta ts = (qs, stb)" by (cases "startAll ?sta ts")
  from Cons.prems(2) b have st1: "st1 = stb"
    by (simp add: startTask_configured[OF c])
  have "\<forall>t \<in> set ts. map_of (configs ?sta) (provider t) \<noteq> None"
    using Cons.prems(1) by simp
  from Cons.IH[OF this b] st1 show ?case by simp
qed

lemma providers_tasksFor: "map provider (tasksFor b opts vs p) = replicate (length vs) p"
  by (simp add: tasksFor_def provider_mkTask comp_def map_replicate_const)

lemma providers_of_buildTasks:
  "map provider (buildTasks b ps opts) =
     concat (map (replicate (length (variantsOf opts))) ps)"
  by (simp add: buildTasks_def map_concat comp_def providers_tasksFor)

lemma variantsOf_thinkOptions:
  "variantsOf (Some (thinkOptions inp)) = (case inVariants inp of None \<Rightarrow> [[]] | Some v \<Rightarrow> v)"
  by (simp add: variantsOf_def thinkOptions_def)

lemma think_runs:
  assumes "getAvailableProviders st \<noteq> []"
      and "targetProvidersOf (getAvailableProviders st) (inProviders inp) \<noteq> []"
  shows "\<exists>out st' r.
           parallelAiThink st inp rnd = (Inr out, st') \<and>
           outProviders out = targetProvidersOf (getAvailableProviders st) (inProviders inp) \<and>
           sessions st' (outSessionId out) = Some r \<and>
           map provider (tasks r) =
             concat (map (replicate (length (case inVariants inp of None \<Rightarrow> [[]] | Some v \<Rightarrow> v)))
                       (targetProvidersOf (getAvailableProviders st) (inProviders inp))) \<and>
           length (responses r) = length (tasks r) \<and>
           dispatched st' = dispatched st @ tasks r"
proof -
  let ?target = "targetProvidersOf (getAvailableProviders st) (inProviders inp)"
  let ?sid = "finalSessionIdOf st (inSessionId inp) rnd"
  let ?ts = "buildTasks (inPrompt inp) ?target (Some (thinkOptions inp))"
  have conf: "\<forall>p \<in> set ?target. map_of (configs st) p \<noteq> None"
    using targetProviders_configured by blast
  from executeParallelThoughts_returns[OF this]
  obtain r st' where
    run: "executeParallelThoughts st ?sid (inPrompt inp) ?target (Some (thinkOptions inp)) = (Inr r, st')"
    by blast
  from executeParallelThoughts_Inr[OF run] obtain pending st1 where
    a: "startAll st ?ts = (pending, st1)" and
    b: "promiseAll pending = Inr (responses r)" and
    r: "r = \<lparr> sessionId = ?sid, tasks = ?ts, responses = responses r,
                 summary = None, consensus = None,
                 totalDuration = int (joinTime (clock st) pending) - int (clock st),
                 timestamp = joinTime (clock st) pending \<rparr>" and
    s: "st' = st1\<lparr> clock := joinTime (clock st) pending,
                    sessions := (sessions st)(?sid \<mapsto> r) \<rparr>"
    by blast
  from r have f: "sessionId r = ?sid" "tasks r = ?ts"
    by (metis ParallelThoughtResult.select_convs)+
  have "\<forall>t \<in> set ?ts. map_of (configs st) (provider t) \<noteq> None"
    using conf providers_buildTasks by blast
  from startAll_dispatched[OF this a] s f have d: "dispatched st' = dispatched st @ tasks r"
    by simp
  from promiseAll_Inr[OF startAll_pendingFor[OF a] b] f
  have l: "length (responses r) = length (tasks r)"
    by (simp add: list_all2_lengthD)
  have p: "map provider (tasks r) =
             concat (map (replicate (length (case inVariants inp of None \<Rightarrow> [[]] | Some v \<Rightarrow> v)))
                       ?target)"
    using f by (simp add: providers_of_buildTasks variantsOf_thinkOptions)
  from s f have "sessions st' (sessionId r) = Some r" by simp
  with assms run d l p show ?thesis
    by (simp add: parallelAiThink_def Let_def)
qed

lemma target_named:
  "ps \<noteq> [] \<Longrightarrow>
     targetProvidersOf (getAvailableProviders st) (Some ps) =
       filter (\<lambda>p. map_of (configs st) p \<noteq> None) ps"
  by (simp add: targetProvidersOf_def configured_iff)

lemma target_unnamed:
  "chosen = None \<or> chosen = Some [] \<Longrightarrow>
     targetProvidersOf (getAvailableProviders st) chosen = map fst (configs st)"
  by (auto simp: targetProvidersOf_def getAvailableProviders_def)

lemma empty_variants_store_empty_session:
  "executeParallelThoughts st sid b ps (Some (opts\<lparr> variants := Some [] \<rparr>)) =
     (Inr \<lparr> sessionId = sid, tasks = [], responses = [], summary = None, consensus = None,
            totalDuration = 0, timestamp = clock st \<rparr>,
      st\<lparr> sessions := (sessions st)
            (sid \<mapsto> \<lparr> sessionId = sid, tasks = [], responses = [], summary = None,
                      consensus = None, totalDuration = 0, timestamp = clock st \<rparr>) \<rparr>)"
proof -
  have "buildTasks b ps (Some (opts\<lparr> variants := Some [] \<rparr>)) = []"
    by (simp add: buildTasks_def tasksFor_def variantsOf_def)
  then show ?thesis
    by (simp add: executeParallelThoughts_def joinTime_def Let_def)
qed

lemma exampleOptions_given: "exampleOptions (Some vs) = (exampleOptions None)\<lparr> variants := Some vs \<rparr>"
  by (simp add: exampleOptions_def)

section \<open>The claims\<close>

subsection \<open>C1: the batch is the Cartesian product, with one response per task\<close>

text \<open>
  C1. For a providers list and a variants list, every provider being configured,
  \<open>executeParallelThoughts\<close> returns a session with exactly
  \<open>|providers| \<times> |variants|\<close> tasks and as many responses. Position
  \<open>i \<times> |variants| + j\<close> holds the task of provider \<open>i\<close> and variant \<open>j\<close>, whose
  identifier is the provider's name, a hyphen and \<open>j\<close>, and the response there carries
  that identifier and that provider. The providers the tool handler passes are always
  configured ones.
\<close>

theorem executeParallelThoughts_product:
  assumes "\<forall>p \<in> set providers. map_of (configs st) p \<noteq> None"
  shows "(\<exists>r st'.
            executeParallelThoughts st sid basePrompt providers
              (Some (opts\<lparr> variants := Some vs \<rparr>)) = (Inr r, st') \<and>
            length (tasks r) = length providers * length vs \<and>
            length (responses r) = length providers * length vs \<and>
            (\<forall>i < length providers. \<forall>j < length vs.
               provider (tasks r ! (i * length vs + j)) = providers ! i \<and>
               id' (tasks r ! (i * length vs + j)) =
                 provider_name (providers ! i) @ ''-'' @ string_of_nat j \<and>
               prompt (tasks r ! (i * length vs + j)) =
                 (if vs ! j = [] then basePrompt
                  else basePrompt @ [CHR 0x0A, CHR 0x0A] @ vs ! j) \<and>
               taskId (responses r ! (i * length vs + j)) =
                 provider_name (providers ! i) @ ''-'' @ string_of_nat j \<and>
               rprovider (responses r ! (i * length vs + j)) = providers ! i)) \<and>
         (\<forall>p \<in> set (targetProvidersOf (getAvailableProviders st) chosen).
            map_of (configs st) p \<noteq> None)"
proof -
  let ?o = "Some (opts\<lparr> variants := Some vs \<rparr>)"
  let ?m = "length vs"
  from executeParallelThoughts_returns[OF assms]
  obtain r st' where run: "executeParallelThoughts st sid basePrompt providers ?o = (Inr r, st')"
    by blast
  from executeParallelThoughts_Inr[OF run] obtain pending st1 where
    a: "startAll st (buildTasks basePrompt providers ?o) = (pending, st1)" and
    b: "promiseAll pending = Inr (responses r)" and
    c: "tasks r = buildTasks basePrompt providers ?o"
    by (metis ParallelThoughtResult.select_convs(2))
  from promiseAll_Inr[OF startAll_pendingFor[OF a] b] c
  have m: "list_all2 (\<lambda>t r. taskId r = id' t \<and> rprovider r = provider t) (tasks r) (responses r)"
    by simp
  have lt: "length (tasks r) = length providers * ?m"
    using c by (simp add: length_buildTasks variantsOf_given)
  have lr: "length (responses r) = length providers * ?m"
    using m lt by (simp add: list_all2_lengthD)
  have pos: "\<forall>i < length providers. \<forall>j < ?m.
               provider (tasks r ! (i * ?m + j)) = providers ! i \<and>
               id' (tasks r ! (i * ?m + j)) =
                 provider_name (providers ! i) @ ''-'' @ string_of_nat j \<and>
               prompt (tasks r ! (i * ?m + j)) =
                 (if vs ! j = [] then basePrompt
                  else basePrompt @ [CHR 0x0A, CHR 0x0A] @ vs ! j) \<and>
               taskId (responses r ! (i * ?m + j)) =
                 provider_name (providers ! i) @ ''-'' @ string_of_nat j \<and>
               rprovider (responses r ! (i * ?m + j)) = providers ! i"
  proof (intro allI impI)
    fix i j
    assume i: "i < length providers" and j: "j < ?m"
    let ?k = "i * ?m + j"
    have k: "?k < length providers * length (variantsOf ?o)"
      using position_bound[OF i j] by (simp add: variantsOf_given)
    have t: "tasks r ! ?k = mkTask basePrompt ?o (providers ! i) j (vs ! j)"
      using nth_buildTasks[OF k] c j div_mod_position[OF j, of i] by (simp add: variantsOf_given)
    have kl: "?k < length (tasks r)" using position_bound[OF i j] lt by simp
    from m kl have rk: "taskId (responses r ! ?k) = id' (tasks r ! ?k)"
      "rprovider (responses r ! ?k) = provider (tasks r ! ?k)"
      by (simp_all add: list_all2_conv_all_nth)
    show "provider (tasks r ! ?k) = providers ! i \<and>
          id' (tasks r ! ?k) = provider_name (providers ! i) @ ''-'' @ string_of_nat j \<and>
          prompt (tasks r ! ?k) =
            (if vs ! j = [] then basePrompt else basePrompt @ [CHR 0x0A, CHR 0x0A] @ vs ! j) \<and>
          taskId (responses r ! ?k) = provider_name (providers ! i) @ ''-'' @ string_of_nat j \<and>
          rprovider (responses r ! ?k) = providers ! i"
      using rk by (simp add: t mkTask_def taskIdOf_def effectivePrompt_def LF_def)
  qed
  have "\<forall>p \<in> set (targetProvidersOf (getAvailableProviders st) chosen).
            map_of (configs st) p \<noteq> None"
    using targetProviders_configured by blast
  with run lt lr pos show ?thesis by blast
qed

theorem executeParallelThoughts_product_witness:
  "map_of (configs twoProviderState) OpenAI \<noteq> None \<and>
   map_of (configs twoProviderState) Anthropic \<noteq> None \<and>
   map_sum errorMessageOf (map id' \<circ> tasks) (fst productRun) =
     Inr [''openai-0'', ''openai-1'', ''openai-2'', ''anthropic-0'', ''anthropic-1'', ''anthropic-2''] \<and>
   map_sum errorMessageOf (map taskId \<circ> responses) (fst productRun) =
     Inr [''openai-0'', ''openai-1'', ''openai-2'', ''anthropic-0'', ''anthropic-1'', ''anthropic-2''] \<and>
   map_sum errorMessageOf (map rprovider \<circ> responses) (fst productRun) =
     Inr [OpenAI, OpenAI, OpenAI, Anthropic, Anthropic, Anthropic] \<and>
   map_sum errorMessageOf (map response \<circ> responses) (fst productRun) =
     Inr [''answer'', ''answer'', ''answer'', ''answer'', ''answer'', ''answer'']"
proof -
  have h: "\<forall>p \<in> set [OpenAI, Anthropic]. map_of (configs twoProviderState) p \<noteq> None"
    by (simp add: twoProviderState_def exampleState_def)
  have 1: "map_sum errorMessageOf (map id' \<circ> tasks) (fst productRun) =
     Inr [''openai-0'', ''openai-1'', ''openai-2'', ''anthropic-0'', ''anthropic-1'', ''anthropic-2'']"
    by code_simp
  have 2: "map_sum errorMessageOf (map taskId \<circ> responses) (fst productRun) =
     Inr [''openai-0'', ''openai-1'', ''openai-2'', ''anthropic-0'', ''anthropic-1'', ''anthropic-2'']"
    by code_simp
  have 3: "map_sum errorMessageOf (map rprovider \<circ> responses) (fst productRun) =
     Inr [OpenAI, OpenAI, OpenAI, Anthropic, Anthropic, Anthropic]"
    by code_simp
  have 4: "map_sum errorMessageOf (map response \<circ> responses) (fst productRun) =
     Inr [''answer'', ''answer'', ''answer'', ''answer'', ''answer'', ''answer'']"
    by code_simp
  from executeParallelThoughts_product[OF h] show ?thesis using h 1 2 3 4 by simp
qed

subsection \<open>C2: the executor turns failures of a configured provider into results\<close>

text \<open>
  C2. For a task whose provider is configured, \<open>executeTask\<close> returns a result and
  does not throw. The result names the task and its provider, and its duration is the
  time the call took, the difference of the clock after and before. When the provider
  call throws an \<open>Error\<close> with message \<open>m\<close>, the response is \<open>Error: m\<close> and the
  usage is absent; when it throws anything else the response is
  \<open>Error: Unknown error\<close>. The call throws on a network fault, on a status that is not
  a success (with the adapter's label, the status and its text as message), on a body
  that is not JSON, and on a JSON body from which the adapter's first reads throw: the
  body \<open>null\<close>, for OpenAI and DeepSeek a body without \<open>choices\<close>, for Anthropic one
  without \<open>content\<close>. Any other JSON body is read without a throw, missing fields
  giving the empty text.
\<close>

theorem executeTask_degrades:
  assumes "map_of (configs st) (provider task) = Some config"
  shows "(\<exists>r st'.
            executeTask st task = (Inr r, st') \<and>
            taskId r = id' task \<and> rprovider r = provider task \<and>
            rmodel r = resolvedModel task config \<and>
            rtimestamp r = clock st' \<and>
            duration r = int (clock st') - int (clock st) \<and>
            clock st' = clock st + snd (net st (length (dispatched st)) task config) \<and>
            (case callAI task (fst (net st (length (dispatched st)) task config)) of
               Inl (ErrorObj m) \<Rightarrow> response r = ''Error: '' @ m \<and> usage r = None
             | Inl NonError \<Rightarrow> response r = ''Error: Unknown error'' \<and> usage r = None
             | Inr answer \<Rightarrow> response r = fst answer \<and> usage r = snd answer)) \<and>
         callAI task (NetworkFault e) = Inl e \<and>
         callAI task (HttpReply False status statusText body) =
           Inl (ErrorObj (apiLabel (provider task) @ '' API error: '' @ string_of_nat status @
                          '' '' @ statusText)) \<and>
         callAI task (HttpReply True status statusText (Unparseable e)) = Inl e \<and>
         isl (callAI task (HttpReply True status statusText (JsonBody data))) =
           (data = JNull \<or>
            (provider task \<in> {OpenAI, DeepSeek} \<and> nullish (ownProp data ''choices'')) \<or>
            (provider task = Anthropic \<and> nullish (ownProp data ''content'')))"
proof -
  let ?out = "fst (net st (length (dispatched st)) task config)"
  let ?lat = "snd (net st (length (dispatched st)) task config)"
  let ?r = "settle (clock st) task config ?out (clock st + ?lat)"
  have "case callAI task ?out of
          Inl (ErrorObj m) \<Rightarrow> response ?r = ''Error: '' @ m \<and> usage ?r = None
        | Inl NonError \<Rightarrow> response ?r = ''Error: Unknown error'' \<and> usage ?r = None
        | Inr answer \<Rightarrow> response ?r = fst answer \<and> usage ?r = snd answer"
    by (simp add: settle_def errorMessageOf_def split: sum.splits JsThrown.splits)
  moreover have "rmodel ?r = resolvedModel task config" "rtimestamp ?r = clock st + ?lat"
    by (simp_all add: settle_def split: sum.splits)
  ultimately have "\<exists>r st'.
            executeTask st task = (Inr r, st') \<and>
            taskId r = id' task \<and> rprovider r = provider task \<and>
            rmodel r = resolvedModel task config \<and>
            rtimestamp r = clock st' \<and>
            duration r = int (clock st') - int (clock st) \<and>
            clock st' = clock st + snd (net st (length (dispatched st)) task config) \<and>
            (case callAI task (fst (net st (length (dispatched st)) task config)) of
               Inl (ErrorObj m) \<Rightarrow> response r = ''Error: '' @ m \<and> usage r = None
             | Inl NonError \<Rightarrow> response r = ''Error: Unknown error'' \<and> usage r = None
             | Inr answer \<Rightarrow> response r = fst answer \<and> usage r = snd answer)"
    using assms
    by (simp add: executeTask_configured taskId_settle rprovider_settle duration_settle)
  then show ?thesis
    by (simp only: callAI_network_fault callAI_bad_status callAI_unparseable callAI_json_fails
          simp_thms)
qed

theorem executeTask_degrades_witness:
  "map_of (configs failingState) (provider exampleTask) = Some exampleConfig \<and>
   fst (executeTask failingState exampleTask) =
     Inr \<lparr> taskId = ''openai-0'', rprovider = OpenAI, rmodel = ''gpt-4'',
           response = ''Error: OpenAI API error: 500 Internal Server Error'',
           usage = None, rtimestamp = 1007, duration = 7 \<rparr> \<and>
   fst (executeTask faultState exampleTask) =
     Inr \<lparr> taskId = ''openai-0'', rprovider = OpenAI, rmodel = ''gpt-4'',
           response = ''Error: fetch failed'',
           usage = None, rtimestamp = 1003, duration = 3 \<rparr> \<and>
   fst (executeTask garbageState exampleTask) =
     Inr \<lparr> taskId = ''openai-0'', rprovider = OpenAI, rmodel = ''gpt-4'',
           response = ''Error: Unexpected end of JSON input'',
           usage = None, rtimestamp = 1004, duration = 4 \<rparr> \<and>
   fst (executeTask emptyObjectState exampleTask) =
     Inr \<lparr> taskId = ''openai-0'', rprovider = OpenAI, rmodel = ''gpt-4'',
           response = ''Error: Cannot read properties of undefined (reading '' @ [CHR 0x27] @
                      ''0'' @ [CHR 0x27] @ '')'',
           usage = None, rtimestamp = 1006, duration = 6 \<rparr> \<and>
   fst (executeTask geminiState geminiTask) =
     Inr \<lparr> taskId = ''gemini-0'', rprovider = Gemini, rmodel = ''gemini-pro'',
           response = [], usage = None, rtimestamp = 1006, duration = 6 \<rparr>"
proof -
  have h: "map_of (configs failingState) (provider exampleTask) = Some exampleConfig"
    by code_simp
  have 1: "fst (executeTask failingState exampleTask) =
     Inr \<lparr> taskId = ''openai-0'', rprovider = OpenAI, rmodel = ''gpt-4'',
           response = ''Error: OpenAI API error: 500 Internal Server Error'',
           usage = None, rtimestamp = 1007, duration = 7 \<rparr>"
    by code_simp
  have 2: "fst (executeTask faultState exampleTask) =
     Inr \<lparr> taskId = ''openai-0'', rprovider = OpenAI, rmodel = ''gpt-4'',
           response = ''Error: fetch failed'',
           usage = None, rtimestamp = 1003, duration = 3 \<rparr>"
    by code_simp
  have 3: "fst (executeTask garbageState exampleTask) =
     Inr \<lparr> taskId = ''openai-0'', rprovider = OpenAI, rmodel = ''gpt-4'',
           response = ''Error: Unexpected end of JSON input'',
           usage = None, rtimestamp = 1004, duration = 4 \<rparr>"
    by code_simp
  have 4: "fst (executeTask emptyObjectState exampleTask) =
     Inr \<lparr> taskId = ''openai-0'', rprovider = OpenAI, rmodel = ''gpt-4'',
           response = ''Error: Cannot read properties of undefined (reading '' @ [CHR 0x27] @
                      ''0'' @ [CHR 0x27] @ '')'',
           usage = None, rtimestamp = 1006, duration = 6 \<rparr>"
    by code_simp
  have 5: "fst (executeTask geminiState geminiTask) =
     Inr \<lparr> taskId = ''gemini-0'', rprovider = Gemini, rmodel = ''gemini-pro'',
           response = [], usage = None, rtimestamp = 1006, duration = 6 \<rparr>"
    by code_simp
  from executeTask_degrades[OF h] show ?thesis using h 1 2 3 4 5 by simp
qed

subsection \<open>C3: when the tool refuses to start a batch\<close>

text \<open>
  C3, as amended. The call fails, with the state unchanged (nothing dispatched, no
  session stored), when no provider is configured, and when the caller names providers
  none of which is configured. When at least one named provider is configured the call
  returns: the batch runs on the named providers that are configured, in the order
  named, and on no other; one task per variant is sent for each of them and the session
  is stored. When no provider is named the batch runs on all configured providers.
\<close>

theorem think_rejects_unavailable:
  "(configs st = [] \<longrightarrow>
      parallelAiThink st inp rnd = (Inl (ErrorObj msgNoProviders), st)) \<and>
   (configs st \<noteq> [] \<and> inProviders inp = Some ps \<and> ps \<noteq> [] \<and>
    (\<forall>p \<in> set ps. map_of (configs st) p = None) \<longrightarrow>
      parallelAiThink st inp rnd = (Inl (ErrorObj msgUnavailable), st)) \<and>
   (inProviders inp = Some ps \<and> (\<exists>p \<in> set ps. map_of (configs st) p \<noteq> None) \<longrightarrow>
      (\<exists>out st' r.
         parallelAiThink st inp rnd = (Inr out, st') \<and>
         outProviders out = filter (\<lambda>p. map_of (configs st) p \<noteq> None) ps \<and>
         sessions st' (outSessionId out) = Some r \<and>
         map provider (tasks r) =
           concat (map (replicate (length (case inVariants inp of None \<Rightarrow> [[]] | Some v \<Rightarrow> v)))
                     (filter (\<lambda>p. map_of (configs st) p \<noteq> None) ps)) \<and>
         length (responses r) = length (tasks r) \<and>
         dispatched st' = dispatched st @ tasks r)) \<and>
   (configs st \<noteq> [] \<and> (inProviders inp = None \<or> inProviders inp = Some []) \<longrightarrow>
      (\<exists>out st' r.
         parallelAiThink st inp rnd = (Inr out, st') \<and>
         outProviders out = map fst (configs st) \<and>
         sessions st' (outSessionId out) = Some r \<and>
         map provider (tasks r) =
           concat (map (replicate (length (case inVariants inp of None \<Rightarrow> [[]] | Some v \<Rightarrow> v)))
                     (map fst (configs st))) \<and>
         length (responses r) = length (tasks r) \<and>
         dispatched st' = dispatched st @ tasks r))"
proof (intro conjI impI)
  assume "configs st = []"
  then show "parallelAiThink st inp rnd = (Inl (ErrorObj msgNoProviders), st)"
    by (simp add: parallelAiThink_def getAvailableProviders_def)
next
  assume a: "configs st \<noteq> [] \<and> inProviders inp = Some ps \<and> ps \<noteq> [] \<and>
    (\<forall>p \<in> set ps. map_of (configs st) p = None)"
  then have "targetProvidersOf (getAvailableProviders st) (inProviders inp) = []"
    by (simp add: target_named filter_empty_conv)
  with a show "parallelAiThink st inp rnd = (Inl (ErrorObj msgUnavailable), st)"
    by (simp add: parallelAiThink_def Let_def getAvailableProviders_def)
next
  assume a: "inProviders inp = Some ps \<and> (\<exists>p \<in> set ps. map_of (configs st) p \<noteq> None)"
  then have ne: "ps \<noteq> []" by auto
  from a have av: "getAvailableProviders st \<noteq> []"
    by (auto simp: getAvailableProviders_def)
  have t: "targetProvidersOf (getAvailableProviders st) (inProviders inp) =
             filter (\<lambda>p. map_of (configs st) p \<noteq> None) ps"
    using a ne by (simp add: target_named)
  moreover from a have "filter (\<lambda>p. map_of (configs st) p \<noteq> None) ps \<noteq> []"
    by (simp add: filter_empty_conv)
  ultimately have "targetProvidersOf (getAvailableProviders st) (inProviders inp) \<noteq> []"
    by simp
  from think_runs[OF av this, of rnd] show "\<exists>out st' r.
         parallelAiThink st inp rnd = (Inr out, st') \<and>
         outProviders out = filter (\<lambda>p. map_of (configs st) p \<noteq> None) ps \<and>
         sessions st' (outSessionId out) = Some r \<and>
         map provider (tasks r) =
           concat (map (replicate (length (case inVariants inp of None \<Rightarrow> [[]] | Some v \<Rightarrow> v)))
                     (filter (\<lambda>p. map_of (configs st) p \<noteq> None) ps)) \<and>
         length (responses r) = length (tasks r) \<and>
         dispatched st' = dispatched st @ tasks r"
    by (simp only: t)
next
  assume a: "configs st \<noteq> [] \<and> (inProviders inp = None \<or> inProviders inp = Some [])"
  then have av: "getAvailableProviders st \<noteq> []"
    by (simp add: getAvailableProviders_def)
  from a have t: "targetProvidersOf (getAvailableProviders st) (inProviders inp) =
                    map fst (configs st)"
    by (simp add: target_unnamed)
  with a have "targetProvidersOf (getAvailableProviders st) (inProviders inp) \<noteq> []"
    by simp
  from think_runs[OF av this, of rnd] show "\<exists>out st' r.
         parallelAiThink st inp rnd = (Inr out, st') \<and>
         outProviders out = map fst (configs st) \<and>
         sessions st' (outSessionId out) = Some r \<and>
         map provider (tasks r) =
           concat (map (replicate (length (case inVariants inp of None \<Rightarrow> [[]] | Some v \<Rightarrow> v)))
                     (map fst (configs st))) \<and>
         length (responses r) = length (tasks r) \<and>
         dispatched st' = dispatched st @ tasks r"
    by (simp only: t)
qed

theorem think_rejects_unavailable_witness:
  "configs unconfiguredState = [] \<and>
   parallelAiThink unconfiguredState dupInput ''r'' =
     (Inl (ErrorObj msgNoProviders), unconfiguredState) \<and>
   configs exampleState \<noteq> [] \<and>
   inProviders unavailableInput = Some [Gemini] \<and>
   map_of (configs exampleState) Gemini = None \<and>
   parallelAiThink exampleState unavailableInput ''r'' =
     (Inl (ErrorObj msgUnavailable), exampleState) \<and>
   inProviders mixedInput = Some [OpenAI, Gemini] \<and>
   map_of (configs twoProviderState) OpenAI = Some exampleConfig \<and>
   map_of (configs twoProviderState) Gemini = None \<and>
   map_sum errorMessageOf outProviders (fst (parallelAiThink twoProviderState mixedInput ''r'')) =
     Inr [OpenAI] \<and>
   dispatched (snd (parallelAiThink twoProviderState mixedInput ''r'')) = [exampleTask] \<and>
   map_option tasks (sessions (snd (parallelAiThink twoProviderState mixedInput ''r'')) ''s'') =
     Some [exampleTask] \<and>
   inProviders allProvidersInput = None \<and>
   map_sum errorMessageOf outProviders
     (fst (parallelAiThink twoProviderState allProvidersInput ''r'')) = Inr [OpenAI, Anthropic] \<and>
   map provider (dispatched (snd (parallelAiThink twoProviderState allProvidersInput ''r''))) =
     [OpenAI, Anthropic]"
proof -
  have 1: "configs unconfiguredState = []"
    by (simp add: unconfiguredState_def)
  have 2: "configs exampleState \<noteq> []"
    by (simp add: exampleState_def)
  have 3: "inProviders unavailableInput = Some [Gemini]"
    by (simp add: unavailableInput_def dupInput_def)
  have 4: "map_of (configs exampleState) Gemini = None"
    by (simp add: exampleState_def)
  have 5: "inProviders mixedInput = Some [OpenAI, Gemini]"
    by (simp add: mixedInput_def dupInput_def)
  have 6: "map_of (configs twoProviderState) OpenAI = Some exampleConfig"
    "map_of (configs twoProviderState) Gemini = None"
    by (simp_all add: twoProviderState_def)
  have 7: "map_sum errorMessageOf outProviders
             (fst (parallelAiThink twoProviderState mixedInput ''r'')) = Inr [OpenAI]"
    by code_simp
  have 8: "dispatched (snd (parallelAiThink twoProviderState mixedInput ''r'')) = [exampleTask]"
    by code_simp
  have 9: "map_option tasks (sessions (snd (parallelAiThink twoProviderState mixedInput ''r'')) ''s'') =
             Some [exampleTask]"
    by code_simp
  have 10: "inProviders allProvidersInput = None"
    by (simp add: allProvidersInput_def)
  have 11: "map_sum errorMessageOf outProviders
     (fst (parallelAiThink twoProviderState allProvidersInput ''r'')) = Inr [OpenAI, Anthropic]"
    by code_simp
  have 12: "map provider (dispatched (snd (parallelAiThink twoProviderState allProvidersInput ''r''))) =
     [OpenAI, Anthropic]"
    by code_simp
  from think_rejects_unavailable[where st = unconfiguredState and inp = dupInput and rnd = "''r''"] 1
  have a: "parallelAiThink unconfiguredState dupInput ''r'' =
     (Inl (ErrorObj msgNoProviders), unconfiguredState)"
    by blast
  from think_rejects_unavailable[where st = exampleState and inp = unavailableInput
         and ps = "[Gemini]" and rnd = "''r''"] 2 3 4
  have b: "parallelAiThink exampleState unavailableInput ''r'' =
     (Inl (ErrorObj msgUnavailable), exampleState)"
    by simp
  from 1 2 3 4 5 6 7 8 9 10 11 12 a b show ?thesis by simp
qed

text \<open>
  As stated, for any chosen provider that is not configured, the claim fails: with
  \<open>openai\<close> configured and \<open>gemini\<close> not, choosing both runs the batch on
  \<open>openai\<close> and stores its session.
\<close>

theorem think_filters_unconfigured_counterexample:
  "inProviders mixedInput = Some [OpenAI, Gemini] \<and>
   map_of (configs exampleState) Gemini = None \<and>
   fst (parallelAiThink exampleState mixedInput ''r'') =
     Inr \<lparr> outSessionId = ''s'', outPrompt = ''q'', outProviders = [OpenAI],
           outResponses = [\<lparr> vProvider = OpenAI, vModel = ''gpt-4'', vResponse = ''answer'',
                             vDuration = 5, vUsage = None \<rparr>],
           outTotalDuration = 5, outTimestamp = 1005 \<rparr> \<and>
   sessions (snd (parallelAiThink exampleState mixedInput ''r'')) ''s'' = Some storedSession \<and>
   dispatched (snd (parallelAiThink exampleState mixedInput ''r'')) = [exampleTask]"
proof -
  have 1: "inProviders mixedInput = Some [OpenAI, Gemini]"
    by (simp add: mixedInput_def dupInput_def)
  have 2: "map_of (configs exampleState) Gemini = None"
    by (simp add: exampleState_def)
  have 3: "fst (parallelAiThink exampleState mixedInput ''r'') =
     Inr \<lparr> outSessionId = ''s'', outPrompt = ''q'', outProviders = [OpenAI],
           outResponses = [\<lparr> vProvider = OpenAI, vModel = ''gpt-4'', vResponse = ''answer'',
                             vDuration = 5, vUsage = None \<rparr>],
           outTotalDuration = 5, outTimestamp = 1005 \<rparr>"
    by code_simp
  have 4: "sessions (snd (parallelAiThink exampleState mixedInput ''r'')) ''s'' = Some storedSession"
    by code_simp
  have 5: "dispatched (snd (parallelAiThink exampleState mixedInput ''r'')) = [exampleTask]"
    by code_simp
  from 1 2 3 4 5 show ?thesis by simp
qed

subsection \<open>C4: an empty variants list\<close>

text \<open>
  C4. An input that yields no task is to be rejected before a task is built. For the
  providers the handler does so: an empty choice falls back to the configured providers,
  and a choice of which nothing remains is refused. For the variants the fallback
  \<open>|| ['']\<close> is meant to supply the single empty variant, but an empty array is truthy
  and is kept: the input passes the schema, no task is built, and a session without
  tasks is stored and returned.
\<close>

theorem empty_variants_not_rejected:
  "inputSchemaOk emptyVariantsInput \<and>
   inVariants emptyVariantsInput = Some [] \<and>
   fst (parallelAiThink exampleState emptyVariantsInput ''r'') =
     Inr \<lparr> outSessionId = ''s'', outPrompt = ''q'', outProviders = [OpenAI],
           outResponses = [], outTotalDuration = 0, outTimestamp = 1000 \<rparr> \<and>
   sessions (snd (parallelAiThink exampleState emptyVariantsInput ''r'')) ''s'' =
     Some \<lparr> sessionId = ''s'', tasks = [], responses = [], summary = None, consensus = None,
            totalDuration = 0, timestamp = 1000 \<rparr> \<and>
   variantsOf (Some (thinkOptions (emptyVariantsInput\<lparr> inVariants := None \<rparr>))) = [[]] \<and>
   variantsOf (Some (thinkOptions emptyVariantsInput)) = [] \<and>
   targetProvidersOf [OpenAI] (Some []) = [OpenAI] \<and>
   fst (parallelAiThink exampleState unavailableInput ''r'') = Inl (ErrorObj msgUnavailable)"
proof -
  have 1: "inputSchemaOk emptyVariantsInput"
    by (simp add: inputSchemaOk_def emptyVariantsInput_def dupInput_def)
  have 2: "inVariants emptyVariantsInput = Some []"
    by (simp add: emptyVariantsInput_def)
  have 3: "fst (parallelAiThink exampleState emptyVariantsInput ''r'') =
     Inr \<lparr> outSessionId = ''s'', outPrompt = ''q'', outProviders = [OpenAI],
           outResponses = [], outTotalDuration = 0, outTimestamp = 1000 \<rparr>"
    by code_simp
  have 4: "sessions (snd (parallelAiThink exampleState emptyVariantsInput ''r'')) ''s'' =
     Some \<lparr> sessionId = ''s'', tasks = [], responses = [], summary = None, consensus = None,
            totalDuration = 0, timestamp = 1000 \<rparr>"
    by code_simp
  have 5: "variantsOf (Some (thinkOptions (emptyVariantsInput\<lparr> inVariants := None \<rparr>))) = [[]]"
    "variantsOf (Some (thinkOptions emptyVariantsInput)) = []"
    by (simp_all add: variantsOf_thinkOptions emptyVariantsInput_def)
  have 6: "targetProvidersOf [OpenAI] (Some []) = [OpenAI]"
    by (simp add: targetProvidersOf_def)
  have 7: "fst (parallelAiThink exampleState unavailableInput ''r'') = Inl (ErrorObj msgUnavailable)"
    by code_simp
  from 1 2 3 4 5 6 7 show ?thesis by simp
qed

subsection \<open>C5: an unknown session is reported and nothing changes\<close>

text \<open>
  C5. When no session is stored under the identifier, \<open>summarizeResponses\<close> and
  \<open>findConsensus\<close> both throw \<open>Session <id> not found\<close> and return the state they
  were given: the store, every stored session, the clock and the log of calls are
  unchanged.
\<close>

theorem unknown_session_not_found:
  assumes "sessions st sid = None"
  shows "summarizeResponses st sid p =
           (Inl (ErrorObj (''Session '' @ sid @ '' not found'')), st) \<and>
         findConsensus st sid q =
           (Inl (ErrorObj (''Session '' @ sid @ '' not found'')), st)"
  using assms by (simp add: summarizeResponses_unknown findConsensus_unknown)

theorem unknown_session_not_found_witness:
  "sessions storedState ''other'' = None \<and>
   summarizeResponses storedState ''other'' None =
     (Inl (ErrorObj ''Session other not found''), storedState) \<and>
   findConsensus storedState ''other'' (Some OpenAI) =
     (Inl (ErrorObj ''Session other not found''), storedState)"
proof -
  have h: "sessions storedState ''other'' = None"
    by code_simp
  from unknown_session_not_found[OF h, of None "Some OpenAI"] show ?thesis using h by simp
qed

subsection \<open>C6: synthesis writes one field of one session\<close>

text \<open>
  C6. For a stored session, the store after \<open>summarizeResponses\<close> is the store before
  with that session's \<open>summary\<close> replaced, and after \<open>findConsensus\<close> with its
  \<open>consensus\<close> replaced: tasks, responses, total duration, timestamp, identifier and
  the other of the two fields are as before, and so is every other session. When both
  calls return, in either order, the session holds both texts.
\<close>

theorem synthesis_frame:
  assumes "sessions st sid = Some s"
  shows "(\<exists>x. sessions (snd (summarizeResponses st sid p)) =
                (sessions st)(sid \<mapsto> s\<lparr> summary := x \<rparr>)) \<and>
         (\<exists>y. sessions (snd (findConsensus st sid q)) =
                (sessions st)(sid \<mapsto> s\<lparr> consensus := y \<rparr>)) \<and>
         (\<forall>a st1 b st2.
            summarizeResponses st sid p = (Inr a, st1) \<longrightarrow>
            findConsensus st1 sid q = (Inr b, st2) \<longrightarrow>
            sessions st2 = (sessions st)(sid \<mapsto> s\<lparr> summary := Some a, consensus := Some b \<rparr>)) \<and>
         (\<forall>b st1 a st2.
            findConsensus st sid q = (Inr b, st1) \<longrightarrow>
            summarizeResponses st1 sid p = (Inr a, st2) \<longrightarrow>
            sessions st2 = (sessions st)(sid \<mapsto> s\<lparr> summary := Some a, consensus := Some b \<rparr>))"
proof (intro conjI allI impI)
  show "\<exists>x. sessions (snd (summarizeResponses st sid p)) =
                (sessions st)(sid \<mapsto> s\<lparr> summary := x \<rparr>)"
    by (rule summarizeResponses_store[OF assms])
  show "\<exists>y. sessions (snd (findConsensus st sid q)) =
                (sessions st)(sid \<mapsto> s\<lparr> consensus := y \<rparr>)"
    by (rule findConsensus_store[OF assms])
next
  fix a st1 b st2
  assume 1: "summarizeResponses st sid p = (Inr a, st1)"
     and 2: "findConsensus st1 sid q = (Inr b, st2)"
  from summarizeResponses_Inr[OF assms 1]
  have s1: "sessions st1 = (sessions st)(sid \<mapsto> s\<lparr> summary := Some a \<rparr>)" by simp
  then have "sessions st1 sid = Some (s\<lparr> summary := Some a \<rparr>)" by simp
  from findConsensus_Inr[OF this 2] s1
  show "sessions st2 = (sessions st)(sid \<mapsto> s\<lparr> summary := Some a, consensus := Some b \<rparr>)"
    by simp
next
  fix b st1 a st2
  assume 1: "findConsensus st sid q = (Inr b, st1)"
     and 2: "summarizeResponses st1 sid p = (Inr a, st2)"
  from findConsensus_Inr[OF assms 1]
  have s1: "sessions st1 = (sessions st)(sid \<mapsto> s\<lparr> consensus := Some b \<rparr>)" by simp
  then have s1': "sessions st1 sid = Some (s\<lparr> consensus := Some b \<rparr>)" by simp
  have c: "s\<lparr> consensus := Some b, summary := Some a \<rparr> =
           s\<lparr> summary := Some a, consensus := Some b \<rparr>"
    by (cases s) simp
  from summarizeResponses_Inr[OF s1' 2] s1
  have "sessions st2 = (sessions st)(sid \<mapsto> s\<lparr> consensus := Some b, summary := Some a \<rparr>)"
    by simp
  then show "sessions st2 = (sessions st)(sid \<mapsto> s\<lparr> summary := Some a, consensus := Some b \<rparr>)"
    by (simp only: c)
qed

theorem synthesis_frame_witness:
  "sessions storedState ''s'' = Some storedSession \<and>
   fst (summarizeResponses storedState ''s'' (Some OpenAI)) = Inr ''answer'' \<and>
   fst (findConsensus afterSummary ''s'' (Some OpenAI)) = Inr ''answer'' \<and>
   sessions afterBoth ''s'' =
     Some (storedSession\<lparr> summary := Some ''answer'', consensus := Some ''answer'' \<rparr>)"
proof -
  have h: "sessions storedState ''s'' = Some storedSession"
    by code_simp
  have 1: "summarizeResponses storedState ''s'' (Some OpenAI) = (Inr ''answer'', afterSummary)"
    unfolding afterSummary_def by (rule prod_eqI) (code_simp, simp)
  have 2: "findConsensus afterSummary ''s'' (Some OpenAI) = (Inr ''answer'', afterBoth)"
    unfolding afterBoth_def by (rule prod_eqI) (code_simp, simp)
  from synthesis_frame[OF h, of "Some OpenAI" "Some OpenAI"] 1 2
  have "sessions afterBoth =
          (sessions storedState)(''s'' \<mapsto> storedSession\<lparr> summary := Some ''answer'', consensus := Some ''answer'' \<rparr>)"
    by blast
  with h 1 2 show ?thesis by simp
qed

subsection \<open>C7: a second batch under the same identifier replaces the first\<close>

text \<open>
  C7. When \<open>executeParallelThoughts\<close> is called twice with the same session identifier,
  the store maps the identifier to the first call's session after the first call and to
  the second call's session after the second. That session holds the second call's
  tasks, one response per task, no summary and no consensus, and it is the same whatever
  was stored under the identifier before the second call.
\<close>

theorem executeParallelThoughts_replaces:
  assumes "executeParallelThoughts st0 sid b1 ps1 o1 = (Inr r1, st1)"
      and "executeParallelThoughts st1 sid b2 ps2 o2 = (Inr r2, st2)"
  shows "sessions st1 sid = Some r1 \<and>
         sessions st2 sid = Some r2 \<and>
         sessionId r2 = sid \<and>
         tasks r2 = buildTasks b2 ps2 o2 \<and>
         length (responses r2) = length (tasks r2) \<and>
         summary r2 = None \<and> consensus r2 = None \<and>
         (\<forall>old. fst (executeParallelThoughts (st1\<lparr> sessions := (sessions st1)(sid := old) \<rparr>)
                        sid b2 ps2 o2) = Inr r2)"
proof -
  from executeParallelThoughts_Inr[OF assms(1)] have 1: "sessions st1 sid = Some r1" by auto
  from executeParallelThoughts_Inr[OF assms(2)] obtain pending sta where
    a: "startAll st1 (buildTasks b2 ps2 o2) = (pending, sta)" and
    b: "promiseAll pending = Inr (responses r2)" and
    r: "r2 = \<lparr> sessionId = sid, tasks = buildTasks b2 ps2 o2, responses = responses r2,
                 summary = None, consensus = None,
                 totalDuration = int (joinTime (clock st1) pending) - int (clock st1),
                 timestamp = joinTime (clock st1) pending \<rparr>" and
    s: "st2 = sta\<lparr> clock := joinTime (clock st1) pending,
                    sessions := (sessions st1)(sid \<mapsto> r2) \<rparr>"
    by blast
  from r have f: "sessionId r2 = sid" "tasks r2 = buildTasks b2 ps2 o2" "summary r2 = None"
    "consensus r2 = None"
    by (metis ParallelThoughtResult.select_convs)+
  from promiseAll_Inr[OF startAll_pendingFor[OF a] b] f(2)
  have "length (responses r2) = length (tasks r2)"
    by (simp add: list_all2_lengthD)
  moreover from s have "sessions st2 sid = Some r2" by simp
  moreover have "\<forall>old. fst (executeParallelThoughts (st1\<lparr> sessions := (sessions st1)(sid := old) \<rparr>)
                        sid b2 ps2 o2) = Inr r2"
    using assms(2) by (simp add: executeParallelThoughts_result_irrelevant)
  ultimately show ?thesis using 1 f by simp
qed

theorem executeParallelThoughts_replaces_witness:
  "executeParallelThoughts exampleState ''s'' ''q'' [OpenAI] None = (Inr storedSession, storedState) \<and>
   executeParallelThoughts storedState ''s'' ''again'' [OpenAI]
     (Some (exampleOptions (Some [''a'']))) = (Inr secondSession, secondState) \<and>
   sessions storedState ''s'' = Some storedSession \<and>
   sessions secondState ''s'' = Some secondSession \<and>
   summary secondSession = None \<and> consensus secondSession = None"
proof -
  have 1: "executeParallelThoughts exampleState ''s'' ''q'' [OpenAI] None =
             (Inr storedSession, storedState)"
    unfolding storedState_def by (rule prod_eqI) (code_simp, simp)
  have 2: "executeParallelThoughts storedState ''s'' ''again'' [OpenAI]
             (Some (exampleOptions (Some [''a'']))) = (Inr secondSession, secondState)"
    unfolding secondState_def by (rule prod_eqI) (code_simp, simp)
  from executeParallelThoughts_replaces[OF 1 2] 1 2 show ?thesis by simp
qed

subsection \<open>C8: the effective prompt of each task\<close>

text \<open>
  C8. With variants \<open>vs\<close> given, the task at position \<open>k\<close> of a batch belongs to provider
  \<open>k div |vs|\<close> and variant \<open>k mod |vs|\<close>; its prompt is the base prompt alone when that
  variant is the empty string, and the base prompt, two line feeds (character 10, a
  blank line) and the variant otherwise. When the variants are omitted the batch has
  exactly one task per provider, in order, with index 0 and the base prompt unchanged.
  The tasks of a returned session are these.
\<close>

theorem effective_prompts:
  "(\<forall>k < length ps * length vs.
      prompt (buildTasks b ps (Some (o1\<lparr> variants := Some vs \<rparr>)) ! k) =
        (if vs ! (k mod length vs) = [] then b
         else b @ [CHR 0x0A, CHR 0x0A] @ vs ! (k mod length vs)) \<and>
      provider (buildTasks b ps (Some (o1\<lparr> variants := Some vs \<rparr>)) ! k) =
        ps ! (k div length vs)) \<and>
   length (buildTasks b ps (Some (o1\<lparr> variants := Some vs \<rparr>))) = length ps * length vs \<and>
   buildTasks b ps None =
     map (\<lambda>p. \<lparr> id' = provider_name p @ ''-0'', prompt = b, provider = p, model = None,
                temperature = None, maxTokens = None, metadata = None \<rparr>) ps \<and>
   buildTasks b ps (Some (o1\<lparr> variants := None \<rparr>)) =
     map (\<lambda>p. \<lparr> id' = provider_name p @ ''-0'', prompt = b, provider = p,
                model = (case customModels o1 of None \<Rightarrow> None | Some cm \<Rightarrow> cm p),
                temperature = otemperature o1, maxTokens = omaxTokens o1,
                metadata = None \<rparr>) ps \<and>
   (\<forall>r st'. executeParallelThoughts st sid b ps opts = (Inr r, st') \<longrightarrow>
      tasks r = buildTasks b ps opts)"
proof (intro conjI allI impI)
  let ?o = "Some (o1\<lparr> variants := Some vs \<rparr>)"
  fix k
  assume "k < length ps * length vs"
  then have k: "k < length ps * length (variantsOf ?o)" by (simp add: variantsOf_given)
  show "prompt (buildTasks b ps ?o ! k) =
        (if vs ! (k mod length vs) = [] then b
         else b @ [CHR 0x0A, CHR 0x0A] @ vs ! (k mod length vs))"
    using nth_buildTasks[OF k]
    by (simp add: variantsOf_given mkTask_def effectivePrompt_def LF_def)
  show "provider (buildTasks b ps ?o ! k) = ps ! (k div length vs)"
    using nth_buildTasks[OF k] by (simp add: variantsOf_given mkTask_def)
next
  show "length (buildTasks b ps (Some (o1\<lparr> variants := Some vs \<rparr>))) = length ps * length vs"
    by (simp add: length_buildTasks variantsOf_given)
  show "buildTasks b ps None =
     map (\<lambda>p. \<lparr> id' = provider_name p @ ''-0'', prompt = b, provider = p, model = None,
                temperature = None, maxTokens = None, metadata = None \<rparr>) ps"
    by (induction ps)
       (simp_all add: buildTasks_def tasksFor_def variantsOf_def mkTask_def taskIdOf_def
          string_of_nat_0 effectivePrompt_def customModelOf_def temperatureOf_def maxTokensOf_def)
  show "buildTasks b ps (Some (o1\<lparr> variants := None \<rparr>)) =
     map (\<lambda>p. \<lparr> id' = provider_name p @ ''-0'', prompt = b, provider = p,
                model = (case customModels o1 of None \<Rightarrow> None | Some cm \<Rightarrow> cm p),
                temperature = otemperature o1, maxTokens = omaxTokens o1,
                metadata = None \<rparr>) ps"
    by (induction ps)
       (simp_all add: buildTasks_def tasksFor_def variantsOf_def mkTask_def taskIdOf_def
          string_of_nat_0 effectivePrompt_def customModelOf_def temperatureOf_def maxTokensOf_def)
next
  fix r st'
  assume "executeParallelThoughts st sid b ps opts = (Inr r, st')"
  from executeParallelThoughts_Inr[OF this] show "tasks r = buildTasks b ps opts"
    by (metis ParallelThoughtResult.select_convs(2))
qed

theorem effective_prompts_witness:
  "2 < length [OpenAI, Anthropic] * length [''a'', []] \<and>
   prompt (twoByTwo ! 2) = ''q'' @ [CHR 0x0A, CHR 0x0A] @ ''a'' \<and>
   prompt (twoByTwo ! 3) = ''q'' \<and>
   provider (twoByTwo ! 2) = Anthropic \<and>
   map prompt twoByTwo =
     [''q'' @ [CHR 0x0A, CHR 0x0A] @ ''a'', ''q'', ''q'' @ [CHR 0x0A, CHR 0x0A] @ ''a'', ''q''] \<and>
   map prompt (buildTasks ''q'' [OpenAI, Anthropic] None) = [''q'', ''q''] \<and>
   executeParallelThoughts exampleState ''s'' ''q'' [OpenAI] None = (Inr storedSession, storedState) \<and>
   tasks storedSession = buildTasks ''q'' [OpenAI] None"
proof -
  let ?vs = "[''a'', []]"
  let ?o = "Some ((exampleOptions None)\<lparr> variants := Some ?vs \<rparr>)"
  have tb: "twoByTwo = buildTasks ''q'' [OpenAI, Anthropic] ?o"
    by (simp add: twoByTwo_def exampleOptions_given)
  have 1: "executeParallelThoughts exampleState ''s'' ''q'' [OpenAI] None =
             (Inr storedSession, storedState)"
    unfolding storedState_def by (rule prod_eqI) (code_simp, simp)
  have a: "\<forall>k < length [OpenAI, Anthropic] * length ?vs.
      prompt (twoByTwo ! k) =
        (if ?vs ! (k mod length ?vs) = [] then ''q''
         else ''q'' @ [CHR 0x0A, CHR 0x0A] @ ?vs ! (k mod length ?vs)) \<and>
      provider (twoByTwo ! k) = [OpenAI, Anthropic] ! (k div length ?vs)"
    unfolding tb
    using effective_prompts[where ps = "[OpenAI, Anthropic]" and vs = ?vs and b = "''q''"
            and ?o1.0 = "exampleOptions None"]
    by blast
  from effective_prompts[where ps = "[OpenAI]" and b = "''q''" and st = exampleState
         and sid = "''s''" and opts = None] 1
  have b: "tasks storedSession = buildTasks ''q'' [OpenAI] None"
    by blast
  have l: "length [OpenAI, Anthropic] * length ?vs = 4" "length ?vs = 2" by simp_all
  have m: "(2::nat) mod 2 = 0" "(3::nat) mod 2 = 1" "(2::nat) div 2 = 1" by simp_all
  have n: "?vs ! (1::nat) = []" "[OpenAI, Anthropic] ! (1::nat) = Anthropic" by simp_all
  have p: "map prompt twoByTwo =
     [''q'' @ [CHR 0x0A, CHR 0x0A] @ ''a'', ''q'', ''q'' @ [CHR 0x0A, CHR 0x0A] @ ''a'', ''q'']"
    by code_simp
  have q: "map prompt (buildTasks ''q'' [OpenAI, Anthropic] None) = [''q'', ''q'']"
    by code_simp
  from a[unfolded l, rule_format, of 2] a[unfolded l, rule_format, of 3] 1 b p q show ?thesis
    by (simp add: m n)
qed

subsection \<open>C9: task identifiers within a batch\<close>

text \<open>
  C9, as amended. When no provider occurs twice in the providers list, the identifiers
  of the tasks of a batch are pairwise distinct. The identifier is the provider's name,
  a hyphen and the variant index, and two of them are equal only for the same provider
  and the same index.
\<close>

theorem task_ids_distinct:
  assumes "distinct ps"
  shows "distinct (map id' (buildTasks b ps opts)) \<and>
         (\<forall>r st'. executeParallelThoughts st sid b ps opts = (Inr r, st') \<longrightarrow>
            distinct (map id' (tasks r))) \<and>
         (taskIdOf p i = taskIdOf q j) = (p = q \<and> i = j)"
proof (intro conjI allI impI)
  show "distinct (map id' (buildTasks b ps opts))"
    by (rule distinct_ids_buildTasks[OF assms])
  show "(taskIdOf p i = taskIdOf q j) = (p = q \<and> i = j)"
    by (rule taskIdOf_inj)
next
  fix r st'
  assume "executeParallelThoughts st sid b ps opts = (Inr r, st')"
  from executeParallelThoughts_Inr[OF this] have "tasks r = buildTasks b ps opts"
    by (metis ParallelThoughtResult.select_convs(2))
  then show "distinct (map id' (tasks r))"
    by (simp add: distinct_ids_buildTasks[OF assms])
qed

theorem task_ids_distinct_witness:
  "distinct [OpenAI, Anthropic] \<and>
   map id' twoByTwo = [''openai-0'', ''openai-1'', ''anthropic-0'', ''anthropic-1''] \<and>
   distinct (map id' twoByTwo)"
proof -
  have h: "distinct [OpenAI, Anthropic]" by simp
  have e: "map id' twoByTwo = [''openai-0'', ''openai-1'', ''anthropic-0'', ''anthropic-1'']"
    by code_simp
  from task_ids_distinct[OF h, of "''q''" "Some (exampleOptions (Some [''a'', []]))"]
  have "distinct (map id' twoByTwo)"
    unfolding twoByTwo_def by blast
  with h e show ?thesis by simp
qed

text \<open>
  As stated, for every batch, the claim fails: the tool accepts a providers list that
  names a provider twice, and the two tasks of that provider get the same identifier.
\<close>

theorem duplicate_provider_ids_counterexample:
  "inputSchemaOk dupInput \<and>
   map_option (map id' \<circ> tasks) (sessions (snd (parallelAiThink exampleState dupInput ''r'')) ''s'') =
     Some [''openai-0'', ''openai-0''] \<and>
   \<not> distinct [''openai-0'', ''openai-0'']"
proof -
  have 1: "inputSchemaOk dupInput" by (simp add: inputSchemaOk_def dupInput_def)
  have 2: "map_option (map id' \<circ> tasks)
             (sessions (snd (parallelAiThink exampleState dupInput ''r'')) ''s'') =
           Some [''openai-0'', ''openai-0'']"
    by code_simp
  from 1 2 show ?thesis by simp
qed

subsection \<open>C10: a failed synthesis call is stored as its error text\<close>



end
